theory Spec2Isabelle
  imports Complex_Main "HOL-Library.AList" "HOL-Library.Product_Lexorder" "HOL-Library.Multiset"
begin

section \<open>Conventions\<close>

text \<open>
  A JavaScript \<open>number\<close> that holds a count is a \<open>nat\<close>, one that holds a time in
  milliseconds read from \<open>Date.now()\<close> is an \<open>int\<close>, and one that may be fractional
  (a TTL in minutes, a price, a coordinate) is a \<open>real\<close>, the value of the double.
  Comparisons, and sums and differences of whole numbers, are exact on doubles; a
  product of doubles is rounded, and where the code multiplies, the rounded product is
  a parameter. Every read of \<open>Date.now()\<close>
  is an explicit argument of the function that performs it. Mutation of \<open>this\<close> is
  explicit state passing: a method returns its result together with the new state.
  A thrown \<open>Error\<close> is the left injection of a sum.
\<close>

section \<open>services/RateLimiter.ts\<close>

record RequestRecord =
  timestamp :: int
  success :: bool

record RateLimitConfig =
  windowMs :: int
  maxRequests :: nat
  keyGenerator :: "string \<Rightarrow> string"
  skipSuccessfulRequests :: bool
  skipFailedRequests :: bool

text \<open>\<open>Partial<RateLimitConfig>\<close>: every field may be left out.\<close>

record RateLimitOptions =
  opt_windowMs :: "int option"
  opt_maxRequests :: "nat option"
  opt_keyGenerator :: "(string \<Rightarrow> string) option"
  opt_skipSuccessfulRequests :: "bool option"
  opt_skipFailedRequests :: "bool option"

definition no_options :: RateLimitOptions where
  "no_options = \<lparr>opt_windowMs = None, opt_maxRequests = None, opt_keyGenerator = None,
     opt_skipSuccessfulRequests = None, opt_skipFailedRequests = None\<rparr>"

text \<open>The field \<open>requests: Map<string, RequestRecord[]>\<close> of the class.\<close>

type_synonym requests_map = "string \<Rightarrow> RequestRecord list option"

text \<open>The constructor: the defaults, overridden by the spread of \<open>options\<close>.\<close>

definition RateLimiter_config :: "nat \<Rightarrow> int \<Rightarrow> RateLimitOptions \<Rightarrow> RateLimitConfig" where
  "RateLimiter_config maxRequests' windowMs' options =
     \<lparr>windowMs = (case opt_windowMs options of None \<Rightarrow> windowMs' | Some w \<Rightarrow> w),
      maxRequests = (case opt_maxRequests options of None \<Rightarrow> maxRequests' | Some m \<Rightarrow> m),
      keyGenerator = (case opt_keyGenerator options of None \<Rightarrow> (\<lambda>id'. id') | Some g \<Rightarrow> g),
      skipSuccessfulRequests =
        (case opt_skipSuccessfulRequests options of None \<Rightarrow> False | Some b \<Rightarrow> b),
      skipFailedRequests =
        (case opt_skipFailedRequests options of None \<Rightarrow> False | Some b \<Rightarrow> b)\<rparr>"

definition RateLimiter_requests :: requests_map where
  "RateLimiter_requests = (\<lambda>key. None)"

text \<open>\<open>this.requests.get(key) || []\<close>: an array, even an empty one, is truthy.\<close>

definition requests_get :: "requests_map \<Rightarrow> string \<Rightarrow> RequestRecord list" where
  "requests_get reqs key = (case reqs key of None \<Rightarrow> [] | Some rs \<Rightarrow> rs)"

definition getValidRequests ::
  "RateLimitConfig \<Rightarrow> string \<Rightarrow> int \<Rightarrow> requests_map \<Rightarrow> RequestRecord list \<times> requests_map" where
  "getValidRequests cfg key now reqs =
     (let requests = requests_get reqs key;
          validRequests = filter (\<lambda>request. now - timestamp request < windowMs cfg) requests
      in (validRequests,
          if length validRequests \<noteq> length requests
          then (if length validRequests = 0 then reqs(key := None)
                else reqs(key := Some validRequests))
          else reqs))"

definition canMakeRequest ::
  "RateLimitConfig \<Rightarrow> int \<Rightarrow> string \<Rightarrow> requests_map \<Rightarrow> bool \<times> requests_map" where
  "canMakeRequest cfg now identifier reqs =
     (let key = keyGenerator cfg identifier;
          (requests, reqs') = getValidRequests cfg key now reqs
      in (length requests < maxRequests cfg, reqs'))"

text \<open>
  \<open>recordRequest\<close> reads the clock itself (\<open>now\<close>, the timestamp it stores) and then
  calls \<open>canMakeRequest\<close>, which reads the clock again (\<open>now'\<close>).
\<close>

definition recordRequest ::
  "RateLimitConfig \<Rightarrow> int \<Rightarrow> int \<Rightarrow> string \<Rightarrow> bool \<Rightarrow> requests_map \<Rightarrow> bool \<times> requests_map" where
  "recordRequest cfg now now' identifier success' reqs =
     (let key = keyGenerator cfg identifier;
          (allowed, reqs1) = canMakeRequest cfg now' identifier reqs
      in if \<not> allowed then (False, reqs1)
         else if success' \<and> skipSuccessfulRequests cfg then (True, reqs1)
         else if \<not> success' \<and> skipFailedRequests cfg then (True, reqs1)
         else (let requests = requests_get reqs1 key
               in (True, reqs1(key := Some (requests @ [\<lparr>timestamp = now, success = success'\<rparr>])))))"

definition getRemainingRequests ::
  "RateLimitConfig \<Rightarrow> int \<Rightarrow> string \<Rightarrow> requests_map \<Rightarrow> nat \<times> requests_map" where
  "getRemainingRequests cfg now identifier reqs =
     (let key = keyGenerator cfg identifier;
          (requests, reqs') = getValidRequests cfg key now reqs
      in (maxRequests cfg - length requests, reqs'))"

text \<open>\<open>getResetTime\<close> reads the stored array as it is; it does not call \<open>getValidRequests\<close>.\<close>

definition getResetTime :: "RateLimitConfig \<Rightarrow> int \<Rightarrow> string \<Rightarrow> requests_map \<Rightarrow> int" where
  "getResetTime cfg now identifier reqs =
     (let key = keyGenerator cfg identifier;
          requests = requests_get reqs key
      in if length requests = 0 then 0
         else (let oldestRequest = min_list (map timestamp requests);
                   resetTime = oldestRequest + windowMs cfg
               in max 0 (resetTime - now)))"

definition reset :: "RateLimitConfig \<Rightarrow> string \<Rightarrow> requests_map \<Rightarrow> requests_map" where
  "reset cfg identifier reqs = reqs(keyGenerator cfg identifier := None)"

definition resetAll :: "requests_map \<Rightarrow> requests_map" where
  "resetAll reqs = (\<lambda>key. None)"

text \<open>\<open>getStatus\<close> calls \<open>getRemainingRequests\<close>, which prunes, and then \<open>getResetTime\<close>;
  each reads the clock.\<close>

record RateLimitStatus =
  limit :: nat
  remaining :: nat
  resetTime :: int
  resetTimeMs :: int

definition getStatus ::
  "RateLimitConfig \<Rightarrow> int \<Rightarrow> int \<Rightarrow> string \<Rightarrow> requests_map \<Rightarrow> RateLimitStatus \<times> requests_map" where
  "getStatus cfg now now' identifier reqs =
     (let (remaining', reqs') = getRemainingRequests cfg now identifier reqs;
          resetTimeMs' = getResetTime cfg now' identifier reqs'
      in (\<lparr>limit = maxRequests cfg, remaining = remaining',
           resetTime = \<lceil>real_of_int resetTimeMs' / 1000\<rceil>, resetTimeMs = resetTimeMs'\<rparr>,
          reqs'))"

text \<open>The periodic sweep \<open>cleanup\<close>, run by the interval timer.\<close>

definition cleanup :: "RateLimitConfig \<Rightarrow> int \<Rightarrow> requests_map \<Rightarrow> requests_map" where
  "cleanup cfg now reqs =
     (\<lambda>key. case reqs key of
        None \<Rightarrow> None
      | Some requests \<Rightarrow>
          (let validRequests = filter (\<lambda>request. now - timestamp request < windowMs cfg) requests
           in if length validRequests = 0 then None
              else if length validRequests \<noteq> length requests then Some validRequests
              else Some requests))"

text \<open>
  Drivers for call sequences on one identifier: \<open>canMakeRequest_calls\<close> performs one
  \<open>canMakeRequest\<close> per clock reading of the list and collects the answers;
  \<open>recordRequest_calls\<close> does the same with \<open>recordRequest\<close> (both clock reads of a
  call giving the same millisecond).
\<close>

fun canMakeRequest_calls ::
  "RateLimitConfig \<Rightarrow> int list \<Rightarrow> string \<Rightarrow> requests_map \<Rightarrow> bool list \<times> requests_map" where
  "canMakeRequest_calls cfg [] identifier reqs = ([], reqs)"
| "canMakeRequest_calls cfg (t # ts) identifier reqs =
     (let (b, reqs1) = canMakeRequest cfg t identifier reqs;
          (bs, reqs2) = canMakeRequest_calls cfg ts identifier reqs1
      in (b # bs, reqs2))"

fun recordRequest_calls ::
  "RateLimitConfig \<Rightarrow> int list \<Rightarrow> string \<Rightarrow> requests_map \<Rightarrow> bool list \<times> requests_map" where
  "recordRequest_calls cfg [] identifier reqs = ([], reqs)"
| "recordRequest_calls cfg (t # ts) identifier reqs =
     (let (b, reqs1) = recordRequest cfg t t identifier True reqs;
          (bs, reqs2) = recordRequest_calls cfg ts identifier reqs1
      in (b # bs, reqs2))"

text \<open>
  The specification's reading of \<open>resetIn\<close>, for comparison with \<open>getResetTime\<close>: the
  time until the oldest active record (age strictly below the window) leaves the
  window, and 0 without active records.
\<close>

definition resetIn_spec :: "RateLimitConfig \<Rightarrow> int \<Rightarrow> string \<Rightarrow> requests_map \<Rightarrow> int" where
  "resetIn_spec cfg now identifier reqs =
     (let active = filter (\<lambda>request. now - timestamp request < windowMs cfg)
                     (requests_get reqs (keyGenerator cfg identifier))
      in if active = [] then 0
         else min_list (map timestamp active) + windowMs cfg - now)"

text \<open>Two configurations: the constructor's defaults (60 requests per 60000 ms), and the
  same with \<open>skipSuccessfulRequests\<close> switched on.\<close>

definition default_config :: RateLimitConfig where
  "default_config = RateLimiter_config 60 60000 no_options"

definition skip_success_config :: RateLimitConfig where
  "skip_success_config =
     RateLimiter_config 60 60000 (no_options\<lparr>opt_skipSuccessfulRequests := Some True\<rparr>)"

section \<open>services/CacheService.ts\<close>

text \<open>
  The \<open>Map<string, CacheEntry>\<close> is an association list in insertion order with one pair
  per key: \<open>Map.set\<close> is \<open>AList.update\<close> (an existing key keeps its place, a new key
  goes to the end), \<open>Map.delete\<close> is \<open>AList.delete\<close>, \<open>Map.get\<close> is \<open>map_of\<close>. The
  cached value has an arbitrary type \<open>'v\<close>; the \<open>null\<close> that \<open>get\<close> returns for a missing
  or expired entry is \<open>None\<close>.
\<close>

record 'v CacheEntry =
  data :: 'v
  entry_timestamp :: int
  ttl :: real
  accessCount :: nat
  lastAccessed :: int

record 'v CacheService =
  cache :: "(string \<times> 'v CacheEntry) list"
  defaultTTL :: real
  maxSize :: nat

text \<open>
  The arithmetic of the class is that of IEEE doubles. Timestamps are whole numbers of
  milliseconds, so a difference of two of them and its comparison with a TTL are exact;
  a product is rounded to the nearest double. The rounded product is the parameter
  \<open>fmul\<close> of every operation that multiplies: what is proved for every \<open>fmul\<close> holds
  for the multiplication of doubles. Where the factors are integers and the product is
  below \<open>2^53\<close> nothing is rounded, and \<open>fmul\<close> is \<open>exact_times\<close>.
\<close>

definition exact_times :: "real \<Rightarrow> real \<Rightarrow> real" where
  "exact_times x y = x * y"

definition CacheService_new :: "(real \<Rightarrow> real \<Rightarrow> real) \<Rightarrow> real \<Rightarrow> nat \<Rightarrow> 'v CacheService" where
  "CacheService_new fmul defaultTTLMinutes maxSize' =
     \<lparr>cache = [], defaultTTL = fmul (fmul defaultTTLMinutes 60) 1000, maxSize = maxSize'\<rparr>"

text \<open>\<open>ttlMinutes ? ttlMinutes * 60 * 1000 : this.defaultTTL\<close>: an omitted argument
  (\<open>None\<close>) and the number 0 are both falsy; the product is the rounded product of
  doubles, \<open>(ttlMinutes * 60) * 1000\<close>.\<close>

definition ttl_of :: "(real \<Rightarrow> real \<Rightarrow> real) \<Rightarrow> 'v CacheService \<Rightarrow> real option \<Rightarrow> real" where
  "ttl_of fmul s ttlMinutes =
     (case ttlMinutes of
        None \<Rightarrow> defaultTTL s
      | Some m \<Rightarrow> if m \<noteq> 0 then fmul (fmul m 60) 1000 else defaultTTL s)"

text \<open>The comparator of \<open>evictOldest\<close> orders by access count, then by last access; the
  sort is stable, as \<open>Array.prototype.sort\<close> is.\<close>

definition rank :: "string \<times> 'v CacheEntry \<Rightarrow> nat \<times> int" where
  "rank ke = (accessCount (snd ke), lastAccessed (snd ke))"

definition evictOldest :: "'v CacheService \<Rightarrow> 'v CacheService" where
  "evictOldest s =
     (let entries = sort_key rank (cache s);
          toRemove = max 1 (maxSize s div 10)
      in s\<lparr>cache := fold (\<lambda>ke c. AList.delete (fst ke) c) (take toRemove entries) (cache s)\<rparr>)"

definition cache_set ::
  "(real \<Rightarrow> real \<Rightarrow> real) \<Rightarrow> int \<Rightarrow> string \<Rightarrow> 'v \<Rightarrow> real option \<Rightarrow> 'v CacheService \<Rightarrow> 'v CacheService" where
  "cache_set fmul now key data' ttlMinutes s =
     (let ttl' = ttl_of fmul s ttlMinutes;
          s1 = (if length (cache s) \<ge> maxSize s then evictOldest s else s)
      in s1\<lparr>cache := AList.update key
                \<lparr>data = data', entry_timestamp = now, ttl = ttl', accessCount = 0,
                 lastAccessed = now\<rparr> (cache s1)\<rparr>)"

definition cache_get :: "int \<Rightarrow> string \<Rightarrow> 'v CacheService \<Rightarrow> 'v option \<times> 'v CacheService" where
  "cache_get now key s =
     (case map_of (cache s) key of
        None \<Rightarrow> (None, s)
      | Some entry \<Rightarrow>
          if real_of_int (now - entry_timestamp entry) > ttl entry
          then (None, s\<lparr>cache := AList.delete key (cache s)\<rparr>)
          else (Some (data entry),
                s\<lparr>cache := AList.update key
                     (entry\<lparr>accessCount := accessCount entry + 1, lastAccessed := now\<rparr>)
                     (cache s)\<rparr>))"

definition cache_has :: "int \<Rightarrow> string \<Rightarrow> 'v CacheService \<Rightarrow> bool \<times> 'v CacheService" where
  "cache_has now key s =
     (case map_of (cache s) key of
        None \<Rightarrow> (False, s)
      | Some entry \<Rightarrow>
          if real_of_int (now - entry_timestamp entry) > ttl entry
          then (False, s\<lparr>cache := AList.delete key (cache s)\<rparr>)
          else (True, s))"

definition cache_delete :: "string \<Rightarrow> 'v CacheService \<Rightarrow> bool \<times> 'v CacheService" where
  "cache_delete key s =
     (map_of (cache s) key \<noteq> None, s\<lparr>cache := AList.delete key (cache s)\<rparr>)"

definition cache_clear :: "'v CacheService \<Rightarrow> 'v CacheService" where
  "cache_clear s = s\<lparr>cache := []\<rparr>"

text \<open>The periodic sweep of the cache (\<open>cleanup\<close> in the class).\<close>

definition cache_cleanup :: "int \<Rightarrow> 'v CacheService \<Rightarrow> 'v CacheService" where
  "cache_cleanup now s =
     s\<lparr>cache := filter (\<lambda>ke. \<not> real_of_int (now - entry_timestamp (snd ke)) > ttl (snd ke))
                  (cache s)\<rparr>"

definition refresh ::
  "(real \<Rightarrow> real \<Rightarrow> real) \<Rightarrow> int \<Rightarrow> string \<Rightarrow> real option \<Rightarrow> 'v CacheService \<Rightarrow> bool \<times> 'v CacheService" where
  "refresh fmul now key ttlMinutes s =
     (case map_of (cache s) key of
        None \<Rightarrow> (False, s)
      | Some entry \<Rightarrow>
          (True, s\<lparr>cache := AList.update key
                     (entry\<lparr>entry_timestamp := now, ttl := ttl_of fmul s ttlMinutes\<rparr>) (cache s)\<rparr>))"

text \<open>
  \<open>getOrSet\<close>: the producer \<open>fn\<close> is run only on a miss; its awaited result is \<open>Some\<close>
  value, or \<open>None\<close> when its promise rejects (the rejection propagates and nothing is
  stored). The \<open>set\<close> after the await reads the clock again (\<open>now'\<close>).
\<close>

definition getOrSet ::
  "(real \<Rightarrow> real \<Rightarrow> real) \<Rightarrow> int \<Rightarrow> int \<Rightarrow> string \<Rightarrow> 'v option \<Rightarrow> real option \<Rightarrow> 'v CacheService \<Rightarrow> 'v option \<times> 'v CacheService" where
  "getOrSet fmul now now' key fn ttlMinutes s =
     (case cache_get now key s of
        (Some cached, s1) \<Rightarrow> (Some cached, s1)
      | (None, s1) \<Rightarrow>
          (case fn of
             None \<Rightarrow> (None, s1)
           | Some result \<Rightarrow> (Some result, cache_set fmul now' key result ttlMinutes s1)))"

text \<open>
  Sequences of cache operations, each with the clock reading of its call.
  \<open>setMultiple\<close> and \<open>getMultiple\<close> repeat \<open>set\<close> and \<open>get\<close>, and \<open>destroy\<close>
  ends with \<open>clear\<close>, so they are sequences of the operations below.
\<close>

datatype 'v cache_op =
    Set string 'v "real option"
  | Get string
  | Has string
  | Delete string
  | Clear
  | Cleanup
  | Refresh string "real option"
  | GetOrSet int string "'v option" "real option"

fun cache_step ::
  "(real \<Rightarrow> real \<Rightarrow> real) \<Rightarrow> int \<times> 'v cache_op \<Rightarrow> 'v CacheService \<Rightarrow> 'v CacheService" where
  "cache_step fmul (now, Set key v ttlMinutes) s = cache_set fmul now key v ttlMinutes s"
| "cache_step fmul (now, Get key) s = snd (cache_get now key s)"
| "cache_step fmul (now, Has key) s = snd (cache_has now key s)"
| "cache_step fmul (now, Delete key) s = snd (cache_delete key s)"
| "cache_step fmul (now, Clear) s = cache_clear s"
| "cache_step fmul (now, Cleanup) s = cache_cleanup now s"
| "cache_step fmul (now, Refresh key ttlMinutes) s = snd (refresh fmul now key ttlMinutes s)"
| "cache_step fmul (now, GetOrSet now' key fn ttlMinutes) s = snd (getOrSet fmul now now' key fn ttlMinutes s)"

definition cache_run ::
  "(real \<Rightarrow> real \<Rightarrow> real) \<Rightarrow> (int \<times> 'v cache_op) list \<Rightarrow> 'v CacheService \<Rightarrow> 'v CacheService" where
  "cache_run fmul ops s = fold (cache_step fmul) ops s"

text \<open>The invariant of the store: one pair per key, and no more pairs than \<open>maxSize\<close>.\<close>

definition cache_inv :: "'v CacheService \<Rightarrow> bool" where
  "cache_inv s \<longleftrightarrow> distinct (map fst (cache s)) \<and> length (cache s) \<le> maxSize s"

text \<open>A short run on a cache of capacity 2: two inserts, then a read of the older key.\<close>

definition ops0 :: "(int \<times> nat cache_op) list" where
  "ops0 = [(0, Set ''a'' 1 None), (1, Set ''b'' 2 None), (2, Get ''a'')]"

section \<open>services/PropertyAnalyzer.ts\<close>

subsection \<open>The interfaces\<close>

record Coordinates =
  lat :: real
  lng :: real

record PlanningApplication =
  reference :: string
  description :: string
  status :: string
  date :: string
  decision :: "string option"
  url :: "string option"

datatype Rating = High | Medium | Low

record Comparable =
  c_address :: string
  price :: real
  saleDate :: string
  c_propertyType :: string
  c_bedrooms :: real
  c_floorArea :: "real option"
  pricePerSqFt :: real
  c_distance :: real
  rating :: Rating
  source :: string
  c_url :: "string option"

record MarketData =
  averagePrice :: real
  priceChange1Year :: real
  priceChange5Year :: real
  timeOnMarket :: real
  demandLevel :: Rating
  soldPriceAccuracy :: real
  sampleSize :: real

datatype TransportType = Rail | Underground | Bus | Tram

record TransportLink =
  t_type :: TransportType
  t_name :: string
  t_distance :: real
  walkingTime :: real
  zones :: "string list option"

record Amenity =
  a_type :: string
  a_name :: string
  a_distance :: real
  a_rating :: "real option"
  a_address :: "string option"

record DataQuality =
  overallScore :: int
  comparablesQuality :: Rating
  marketDataQuality :: Rating
  planningDataQuality :: Rating
  warnings :: "string list"

record PropertyData =
  address :: string
  coordinates :: Coordinates
  currentValue :: real
  propertyType :: string
  useClass :: string
  bedrooms :: "real option"
  bathrooms :: "real option"
  floorArea :: "real option"
  yearBuilt :: "real option"
  tenure :: string
  planningHistory :: "PlanningApplication list"
  localAuthority :: string
  conservationArea :: bool
  listedBuilding :: bool
  article4Direction :: bool
  comparables :: "Comparable list"
  marketTrends :: MarketData
  transportLinks :: "TransportLink list"
  localAmenities :: "Amenity list"
  analysisDate :: string
  dataQuality :: DataQuality

text \<open>The object that \<open>getPropertyDetails\<close> returns, and the one that
  \<open>checkPlanningRestrictions\<close> returns; \<open>analyze\<close> spreads both into its result.\<close>

record PropertyDetails =
  d_currentValue :: real
  d_propertyType :: string
  d_bedrooms :: real
  d_bathrooms :: real
  d_tenure :: string
  d_useClass :: string
  d_localAuthority :: string

record Restrictions =
  r_conservationArea :: bool
  r_listedBuilding :: bool
  r_article4Direction :: bool

subsection \<open>The outside world\<close>

text \<open>
  What \<open>analyze\<close> does depends on the answers of its collaborators, which are
  parameters here:
  \<^item> the cache: whether the injected object is usable (a \<open>CacheService\<close>, whose \<open>get\<close>
    and \<open>set\<close> never throw) or not (the \<open>ReportGenerator\<close> constructs its analyzer with
    \<open>{} as any\<close>, on which every \<open>this.cache.get\<close> throws), and, for each provider, the
    answer of \<open>this.cache.get(cacheKey)\<close> to the lookup that opens the provider's \<open>try\<close>
    block: \<open>None\<close> for a miss (\<open>null\<close>), \<open>Some\<close> value for a hit, whatever the state of
    the cache is at that moment. Each provider looks up its own key before it stores
    under it; the stores change the cache and enter the result of the call only
    through those answers, so they are left out;
  \<^item> the network: for each HTTP request, \<open>Success\<close> with what the code extracts from
    the response, or \<open>Failure\<close> when the request is rejected, times out, or the
    response cannot be read (an exception inside the same \<open>try\<close> block);
  \<^item> \<open>extractPostcode\<close> (a regular-expression match on the address), the clock that
    stamps \<open>analysisDate\<close>, the per-comparable enrichment of \<open>getComparables\<close> (distance by
    trigonometry, rating by the age of the sale, price per square foot), and the rounded
    product of two doubles.
  The logger has no influence on results.
\<close>

datatype 'a outcome = Success 'a | Failure string

fun failed :: "'a outcome \<Rightarrow> bool" where
  "failed (Success v) = False"
| "failed (Failure reason) = True"

text \<open>What \<open>scrapeRightmoveDetails\<close> reads from the first \<open>.propertyCard\<close> of the result
  page: the parsed price (\<open>parsePrice\<close>, 0 when there is none), the text of the property
  type (empty when there is none), and the parsed number of bedrooms (0 when there is
  none).\<close>

record PropertyCard =
  card_price :: real
  card_type :: string
  card_bedrooms :: real

record Sources =
  extractPostcode :: "string \<Rightarrow> string"
  double_times :: "real \<Rightarrow> real \<Rightarrow> real"
  google_places_key :: bool
  cache_usable :: bool
  cached_coordinates :: "string \<Rightarrow> Coordinates option"
  http_postcode :: "string \<Rightarrow> Coordinates outcome"
  http_admin_district :: "string \<Rightarrow> string outcome"
  cached_details :: "string \<Rightarrow> PropertyDetails option"
  http_rightmove :: "string \<Rightarrow> PropertyCard option outcome"
  cached_planning :: "string \<Rightarrow> PlanningApplication list option"
  cached_comparables :: "string \<Rightarrow> Comparable list option"
  http_landRegistry :: "string \<Rightarrow> Comparable list outcome"
  enrich :: "Coordinates \<Rightarrow> Comparable \<Rightarrow> Comparable"
  cached_market :: "string \<Rightarrow> MarketData option"
  cached_transport :: "Coordinates \<Rightarrow> TransportLink list option"
  http_transit :: "Coordinates \<Rightarrow> TransportLink list outcome"
  cached_amenities :: "Coordinates \<Rightarrow> Amenity list option"
  http_amenities :: "Coordinates \<Rightarrow> string \<Rightarrow> Amenity list outcome"
  cached_restrictions :: "Coordinates \<Rightarrow> Restrictions option"

text \<open>A thrown value: an \<open>Error\<close> with its message, or anything else.\<close>

datatype thrown = Error string | NotAnError

text \<open>A settled promise, as \<open>Promise.allSettled\<close> reports it.\<close>

datatype 'a settled = Fulfilled 'a | Rejected thrown

text \<open>The provider methods of the class; each call is appended to the list of calls made.\<close>

datatype provider =
    GetCoordinates
  | GetPropertyDetails
  | GetPlanningHistory
  | GetComparables
  | GetMarketData
  | GetTransportLinks
  | GetLocalAmenities
  | CheckPlanningRestrictions

subsection \<open>The methods\<close>

definition getDefaultPropertyDetails :: PropertyDetails where
  "getDefaultPropertyDetails =
     \<lparr>d_currentValue = 0, d_propertyType = ''Unknown'', d_bedrooms = 0, d_bathrooms = 0,
      d_tenure = ''Unknown'', d_useClass = ''Unknown'', d_localAuthority = ''Unknown''\<rparr>"

definition getDefaultMarketData :: MarketData where
  "getDefaultMarketData =
     \<lparr>averagePrice = 400000, priceChange1Year = 6, priceChange5Year = 20, timeOnMarket = 50,
      demandLevel = Medium, soldPriceAccuracy = 8 / 10, sampleSize = 10\<rparr>"

definition defaultRestrictions :: Restrictions where
  "defaultRestrictions =
     \<lparr>r_conservationArea = False, r_listedBuilding = False, r_article4Direction = False\<rparr>"

text \<open>
  \<open>getCoordinates\<close>: the cached coordinates, or the answer of the postcode service; any
  exception of the \<open>try\<close> block is rethrown with the address in the message.
\<close>

definition getCoordinates ::
  "Sources \<Rightarrow> string \<Rightarrow> provider list \<Rightarrow> (thrown + Coordinates) \<times> provider list" where
  "getCoordinates env address' calls =
     (let postcode = extractPostcode env address'
      in (if \<not> cache_usable env
          then Inl (Error (''Could not geocode address: '' @ address'))
          else case cached_coordinates env postcode of
              Some cached \<Rightarrow> Inr cached
            | None \<Rightarrow>
                (case http_postcode env postcode of
                   Failure reason \<Rightarrow> Inl (Error (''Could not geocode address: '' @ address'))
                 | Success coords \<Rightarrow> Inr coords),
          calls @ [GetCoordinates]))"

text \<open>\<open>getLocalAuthority\<close> catches every exception and answers \<open>'Unknown'\<close>, as it does for
  a missing or empty \<open>admin_district\<close>.\<close>

definition getLocalAuthority :: "Sources \<Rightarrow> string \<Rightarrow> string" where
  "getLocalAuthority env address' =
     (case http_admin_district env (extractPostcode env address') of
        Failure reason \<Rightarrow> ''Unknown''
      | Success district \<Rightarrow> if district = [] then ''Unknown'' else district)"

text \<open>\<open>scrapeRightmoveDetails\<close> answers \<open>null\<close> when the request fails and when the page
  has no property card.\<close>

definition scrapeRightmoveDetails :: "Sources \<Rightarrow> string \<Rightarrow> PropertyDetails option" where
  "scrapeRightmoveDetails env address' =
     (case http_rightmove env address' of
        Failure reason \<Rightarrow> None
      | Success None \<Rightarrow> None
      | Success (Some firstResult) \<Rightarrow>
          Some \<lparr>d_currentValue = card_price firstResult,
                d_propertyType = (if card_type firstResult = [] then ''Unknown'' else card_type firstResult),
                d_bedrooms = card_bedrooms firstResult,
                d_bathrooms = 1,
                d_tenure = ''Freehold'',
                d_useClass = ''C3'',
                d_localAuthority = getLocalAuthority env address'\<rparr>)"

definition areaEstimates :: "(string \<times> real) list" where
  "areaEstimates =
     [(''SW'', 800000), (''W1'', 1200000), (''WC'', 900000), (''EC'', 700000),
      (''N1'', 600000), (''E1'', 500000), (''SE'', 450000), (''CR'', 400000),
      (''BR'', 350000), (''DA'', 300000), (''TN'', 350000), (''ME'', 280000)]"

definition estimatePropertyDetails :: "Sources \<Rightarrow> string \<Rightarrow> PropertyDetails" where
  "estimatePropertyDetails env address' =
     (let postcode = extractPostcode env address';
          postcodeArea = take 2 postcode;
          estimatedValue =
            (case map_of areaEstimates postcodeArea of Some v \<Rightarrow> v | None \<Rightarrow> 400000)
      in \<lparr>d_currentValue = estimatedValue,
          d_propertyType = ''Terraced'',
          d_bedrooms = 3,
          d_bathrooms = 1,
          d_tenure = ''Freehold'',
          d_useClass = ''C3'',
          d_localAuthority = getLocalAuthority env address'\<rparr>)"

text \<open>
  \<open>getPropertyDetails\<close>: a cached value; else what was scraped, unless nothing was
  scraped or its price is 0, in which case the estimate. The \<open>catch\<close> of the method is
  reached only when the cache is not usable.
\<close>

definition getPropertyDetails ::
  "Sources \<Rightarrow> string \<Rightarrow> Coordinates \<Rightarrow> provider list \<Rightarrow> PropertyDetails settled \<times> provider list" where
  "getPropertyDetails env address' coords calls =
     (Fulfilled
        (if \<not> cache_usable env then getDefaultPropertyDetails
         else case cached_details env address' of
             Some cached \<Rightarrow> cached
           | None \<Rightarrow>
             (case scrapeRightmoveDetails env address' of
                None \<Rightarrow> estimatePropertyDetails env address'
              | Some propertyDetails \<Rightarrow>
                  if d_currentValue propertyDetails = 0
                  then estimatePropertyDetails env address'
                  else propertyDetails)),
      calls @ [GetPropertyDetails])"

definition mockPlanningHistory :: "PlanningApplication list" where
  "mockPlanningHistory =
     [\<lparr>reference = ''P/2023/0001'', description = ''Single storey rear extension'',
       status = ''Approved'', date = ''2023-01-15'', decision = Some ''Approved'',
       url = Some ''https://planning.example.gov.uk/application/P20230001''\<rparr>,
      \<lparr>reference = ''P/2022/0156'', description = ''Loft conversion with rear dormer'',
       status = ''Approved'', date = ''2022-08-10'', decision = Some ''Approved'',
       url = None\<rparr>]"

definition getPlanningHistory ::
  "Sources \<Rightarrow> string \<Rightarrow> Coordinates \<Rightarrow> provider list
     \<Rightarrow> PlanningApplication list settled \<times> provider list" where
  "getPlanningHistory env address' coords calls =
     (Fulfilled
        (if \<not> cache_usable env then []
         else case cached_planning env address' of
             Some cached \<Rightarrow> cached
           | None \<Rightarrow> mockPlanningHistory),
      calls @ [GetPlanningHistory])"

text \<open>\<open>getLandRegistryComparables\<close> answers \<open>[]\<close> when its request fails; otherwise the
  records it built from the first ten lines of the response.\<close>

definition getLandRegistryComparables :: "Sources \<Rightarrow> string \<Rightarrow> Comparable list" where
  "getLandRegistryComparables env postcode =
     (case http_landRegistry env postcode of
        Failure reason \<Rightarrow> []
      | Success comps \<Rightarrow> comps)"

definition getComparables ::
  "Sources \<Rightarrow> Coordinates \<Rightarrow> string \<Rightarrow> provider list \<Rightarrow> Comparable list settled \<times> provider list" where
  "getComparables env coords postcode calls =
     (Fulfilled
        (if \<not> cache_usable env then []
         else case cached_comparables env postcode of
             Some cached \<Rightarrow> cached
           | None \<Rightarrow>
             (let landRegistryComps = getLandRegistryComparables env postcode
              in map (enrich env coords) landRegistryComps)),
      calls @ [GetComparables])"

text \<open>The table \<open>areaData\<close> of \<open>generateMarketDataByArea\<close>: average price, one-year change,
  demand level.\<close>

definition areaData :: "(string \<times> real \<times> real \<times> Rating) list" where
  "areaData =
     [(''SW'', 800000, 82 / 10, High), (''W1'', 1200000, 65 / 10, High),
      (''E1'', 500000, 121 / 10, High), (''SE'', 450000, 78 / 10, Medium),
      (''N1'', 600000, 92 / 10, High), (''CR'', 400000, 55 / 10, Medium)]"

definition generateMarketDataByArea :: "Sources \<Rightarrow> string \<Rightarrow> MarketData" where
  "generateMarketDataByArea env postcodeArea =
     (let base = (case map_of areaData postcodeArea of
                    Some b \<Rightarrow> b
                  | None \<Rightarrow> (400000, 6, Medium));
          basePrice = fst base;
          baseChange = fst (snd base);
          baseDemand = snd (snd base)
      in \<lparr>averagePrice = basePrice,
          priceChange1Year = baseChange,
          priceChange5Year = double_times env baseChange (35 / 10),
          timeOnMarket = (if baseDemand = High then 35 else if baseDemand = Medium then 50 else 75),
          demandLevel = baseDemand,
          soldPriceAccuracy = 95 / 100,
          sampleSize = 25\<rparr>)"

definition getMarketData ::
  "Sources \<Rightarrow> string \<Rightarrow> provider list \<Rightarrow> MarketData settled \<times> provider list" where
  "getMarketData env postcode calls =
     (Fulfilled
        (if \<not> cache_usable env then getDefaultMarketData
         else case cached_market env postcode of
             Some cached \<Rightarrow> cached
           | None \<Rightarrow>
             (let postcodeArea = take 2 postcode
              in generateMarketDataByArea env postcodeArea)),
      calls @ [GetMarketData])"

text \<open>\<open>getTransportLinks\<close>: without an API key no request is made; a failed request reaches
  the \<open>catch\<close> of the method. The value of \<open>http_transit\<close> is the list built from the first
  five places of the response.\<close>

definition getTransportLinks ::
  "Sources \<Rightarrow> Coordinates \<Rightarrow> provider list \<Rightarrow> TransportLink list settled \<times> provider list" where
  "getTransportLinks env coords calls =
     (Fulfilled
        (if \<not> cache_usable env then []
         else case cached_transport env coords of
             Some cached \<Rightarrow> cached
           | None \<Rightarrow>
             if google_places_key env
             then (case http_transit env coords of
                     Failure reason \<Rightarrow> []
                   | Success transportLinks' \<Rightarrow> transportLinks')
             else []),
      calls @ [GetTransportLinks])"

definition amenityTypes :: "string list" where
  "amenityTypes = [''school'', ''hospital'', ''supermarket'', ''restaurant'', ''park'', ''gym'']"

text \<open>\<open>getLocalAmenities\<close> makes one request per amenity type, each in a \<open>try\<close> block of its
  own: a type whose request fails contributes nothing. The value of \<open>http_amenities\<close> is
  the list of entries pushed for the type, at most three.\<close>

definition getLocalAmenities ::
  "Sources \<Rightarrow> Coordinates \<Rightarrow> provider list \<Rightarrow> Amenity list settled \<times> provider list" where
  "getLocalAmenities env coords calls =
     (Fulfilled
        (if \<not> cache_usable env then []
         else case cached_amenities env coords of
             Some cached \<Rightarrow> cached
           | None \<Rightarrow>
             if google_places_key env
             then concat (map (\<lambda>amenityType. case http_amenities env coords amenityType of
                                         Failure reason \<Rightarrow> []
                                       | Success amenities \<Rightarrow> amenities)
                            amenityTypes)
             else []),
      calls @ [GetLocalAmenities])"

definition checkPlanningRestrictions ::
  "Sources \<Rightarrow> Coordinates \<Rightarrow> provider list \<Rightarrow> Restrictions settled \<times> provider list" where
  "checkPlanningRestrictions env coords calls =
     (Fulfilled
        (if \<not> cache_usable env then defaultRestrictions
         else case cached_restrictions env coords of
             Some cached \<Rightarrow> cached
           | None \<Rightarrow> defaultRestrictions),
      calls @ [CheckPlanningRestrictions])"

text \<open>\<open>Math.round\<close> rounds to the nearest integer, halves upwards.\<close>

definition Math_round :: "real \<Rightarrow> int" where
  "Math_round x = \<lfloor>x + 1 / 2\<rfloor>"

fun scores :: "Rating \<Rightarrow> real" where
  "scores High = 3"
| "scores Medium = 2"
| "scores Low = 1"

definition assessDataQuality ::
  "Comparable list \<Rightarrow> MarketData \<Rightarrow> PlanningApplication list \<Rightarrow> DataQuality" where
  "assessDataQuality comparables' marketData planningHistory' =
     (let highQualityComps = length (filter (\<lambda>c. rating c = High) comparables');
          comparablesQuality' =
            (if length comparables' \<ge> 5 \<and> highQualityComps \<ge> 2 then High
             else if length comparables' \<ge> 3 then Medium else Low);
          warnings1 =
            (if comparablesQuality' = Low then [''Limited comparable sales data available'']
             else []);
          marketDataQuality' =
            (if sampleSize marketData \<ge> 20 then High
             else if sampleSize marketData \<ge> 10 then Medium else Low);
          warnings2 =
            (if marketDataQuality' = Low
             then warnings1 @ [''Market data based on limited sample size'']
             else warnings1);
          planningDataQuality' = (if length planningHistory' > 0 then Medium else Low);
          warnings3 =
            (if planningDataQuality' = Low
             then warnings2 @ [''No planning history data available'']
             else warnings2);
          avgScore =
            (scores comparablesQuality' + scores marketDataQuality' + scores planningDataQuality') / 3;
          overallScore' = Math_round ((avgScore / 3) * 100)
      in \<lparr>overallScore = overallScore',
          comparablesQuality = comparablesQuality',
          marketDataQuality = marketDataQuality',
          planningDataQuality = planningDataQuality',
          warnings = warnings3\<rparr>)"

text \<open>\<open>extractResult\<close>, the local function of \<open>analyze\<close>.\<close>

fun extractResult :: "'a settled \<Rightarrow> 'a \<Rightarrow> 'a" where
  "extractResult (Fulfilled v) defaultValue = v"
| "extractResult (Rejected reason) defaultValue = defaultValue"

text \<open>\<open>Promise.all\<close> of two promises: both values, or the first rejection.\<close>

fun Promise_all :: "'a settled \<Rightarrow> 'b settled \<Rightarrow> thrown + 'a \<times> 'b" where
  "Promise_all (Fulfilled a) (Fulfilled b) = Inr (a, b)"
| "Promise_all (Rejected reason) b = Inl reason"
| "Promise_all (Fulfilled a) (Rejected reason) = Inl reason"

text \<open>The \<open>catch\<close> clause of \<open>analyze\<close>.\<close>

fun analysis_failed :: "thrown \<Rightarrow> thrown" where
  "analysis_failed (Error message) = Error (''Property analysis failed: '' @ message)"
| "analysis_failed NotAnError = Error (''Property analysis failed: '' @ ''Unknown error'')"

text \<open>The object literal that both branches of \<open>analyze\<close> return.\<close>

definition result_of ::
  "string \<Rightarrow> Coordinates \<Rightarrow> PropertyDetails \<Rightarrow> PlanningApplication list \<Rightarrow> Comparable list
     \<Rightarrow> MarketData \<Rightarrow> TransportLink list \<Rightarrow> Amenity list \<Rightarrow> Restrictions \<Rightarrow> string
     \<Rightarrow> DataQuality \<Rightarrow> PropertyData" where
  "result_of address' coordinates' details history comps market links amenities restrictions
       isoDate quality =
     \<lparr>address = address',
      coordinates = coordinates',
      currentValue = d_currentValue details,
      propertyType = d_propertyType details,
      useClass = d_useClass details,
      bedrooms = Some (d_bedrooms details),
      bathrooms = Some (d_bathrooms details),
      floorArea = None,
      yearBuilt = None,
      tenure = d_tenure details,
      planningHistory = history,
      localAuthority = d_localAuthority details,
      conservationArea = r_conservationArea restrictions,
      listedBuilding = r_listedBuilding restrictions,
      article4Direction = r_article4Direction restrictions,
      comparables = comps,
      marketTrends = market,
      transportLinks = links,
      localAmenities = amenities,
      analysisDate = isoDate,
      dataQuality = quality\<rparr>"

text \<open>
  \<open>analyze\<close>. The array \<open>dataPromises\<close> is built, and with it all seven provider methods
  are called, before \<open>analysisType\<close> is looked at. The result is the returned object or
  the thrown error, together with the log of provider calls made.
\<close>

definition analyze ::
  "Sources \<Rightarrow> string \<Rightarrow> string \<Rightarrow> string \<Rightarrow> provider list
     \<Rightarrow> (thrown + PropertyData) \<times> provider list" where
  "analyze env isoDate address' analysisType calls =
     (case getCoordinates env address' calls of
        (Inl error, calls0) \<Rightarrow> (Inl (analysis_failed error), calls0)
      | (Inr coordinates', calls0) \<Rightarrow>
          (let postcode = extractPostcode env address';
               (p0, calls1) = getPropertyDetails env address' coordinates' calls0;
               (p1, calls2) = getPlanningHistory env address' coordinates' calls1;
               (p2, calls3) = getComparables env coordinates' postcode calls2;
               (p3, calls4) = getMarketData env postcode calls3;
               (p4, calls5) = getTransportLinks env coordinates' calls4;
               (p5, calls6) = getLocalAmenities env coordinates' calls5;
               (p6, calls7) = checkPlanningRestrictions env coordinates' calls6
           in if analysisType = ''basic''
              then (case Promise_all p0 p6 of
                      Inl error \<Rightarrow> (Inl (analysis_failed error), calls7)
                    | Inr (propertyDetails, restrictions) \<Rightarrow>
                        (Inr (result_of address' coordinates' propertyDetails [] []
                                getDefaultMarketData [] [] restrictions isoDate
                                \<lparr>overallScore = 60, comparablesQuality = Low,
                                 marketDataQuality = Low, planningDataQuality = Low,
                                 warnings = [''Basic analysis - limited data gathered'']\<rparr>),
                         calls7))
              else (let finalPropertyDetails = extractResult p0 getDefaultPropertyDetails;
                        finalPlanningHistory = extractResult p1 [];
                        finalComparables = extractResult p2 [];
                        finalMarketData = extractResult p3 getDefaultMarketData;
                        finalTransportLinks = extractResult p4 [];
                        finalAmenities = extractResult p5 [];
                        finalRestrictions = extractResult p6 defaultRestrictions;
                        dataQuality' =
                          assessDataQuality finalComparables finalMarketData finalPlanningHistory
                    in (Inr (result_of address' coordinates' finalPropertyDetails
                               finalPlanningHistory finalComparables finalMarketData
                               finalTransportLinks finalAmenities finalRestrictions isoDate
                               dataQuality'),
                        calls7))))"

subsection \<open>Vocabulary for the properties, and fixtures\<close>

text \<open>What each provider method contributes to the reduce step of a comprehensive
  analysis: \<open>extractResult\<close> of its settled promise.\<close>

definition contributed_details :: "Sources \<Rightarrow> string \<Rightarrow> Coordinates \<Rightarrow> PropertyDetails" where
  "contributed_details env address' coords =
     extractResult (fst (getPropertyDetails env address' coords [])) getDefaultPropertyDetails"

definition contributed_planning ::
  "Sources \<Rightarrow> string \<Rightarrow> Coordinates \<Rightarrow> PlanningApplication list" where
  "contributed_planning env address' coords =
     extractResult (fst (getPlanningHistory env address' coords [])) []"

definition contributed_comparables :: "Sources \<Rightarrow> Coordinates \<Rightarrow> string \<Rightarrow> Comparable list" where
  "contributed_comparables env coords postcode =
     extractResult (fst (getComparables env coords postcode [])) []"

definition contributed_market :: "Sources \<Rightarrow> string \<Rightarrow> MarketData" where
  "contributed_market env postcode =
     extractResult (fst (getMarketData env postcode [])) getDefaultMarketData"

definition contributed_transport :: "Sources \<Rightarrow> Coordinates \<Rightarrow> TransportLink list" where
  "contributed_transport env coords =
     extractResult (fst (getTransportLinks env coords [])) []"

definition contributed_amenities :: "Sources \<Rightarrow> Coordinates \<Rightarrow> Amenity list" where
  "contributed_amenities env coords =
     extractResult (fst (getLocalAmenities env coords [])) []"

definition contributed_restrictions :: "Sources \<Rightarrow> Coordinates \<Rightarrow> Restrictions" where
  "contributed_restrictions env coords =
     extractResult (fst (checkPlanningRestrictions env coords [])) defaultRestrictions"

text \<open>The fields that a result takes from the property details, and from the
  restrictions, spread into it.\<close>

definition has_details :: "PropertyData \<Rightarrow> PropertyDetails \<Rightarrow> bool" where
  "has_details r details \<longleftrightarrow>
     currentValue r = d_currentValue details
     \<and> propertyType r = d_propertyType details
     \<and> bedrooms r = Some (d_bedrooms details)
     \<and> bathrooms r = Some (d_bathrooms details)
     \<and> tenure r = d_tenure details
     \<and> useClass r = d_useClass details
     \<and> localAuthority r = d_localAuthority details"

definition has_restrictions :: "PropertyData \<Rightarrow> Restrictions \<Rightarrow> bool" where
  "has_restrictions r restrictions \<longleftrightarrow>
     conservationArea r = r_conservationArea restrictions
     \<and> listedBuilding r = r_listedBuilding restrictions
     \<and> article4Direction r = r_article4Direction restrictions"

text \<open>
  A provider fails when nothing is cached for it and its request fails (or times out):
  the listing provider (Rightmove), the registry (Land Registry), and the places
  provider, for the transit stations and for every type of amenity. The planning,
  market-data and restriction methods make no request.
\<close>

definition listing_failed :: "Sources \<Rightarrow> string \<Rightarrow> bool" where
  "listing_failed env address' \<longleftrightarrow>
     cached_details env address' = None \<and> failed (http_rightmove env address')"

definition registry_failed :: "Sources \<Rightarrow> string \<Rightarrow> bool" where
  "registry_failed env postcode \<longleftrightarrow>
     cached_comparables env postcode = None \<and> failed (http_landRegistry env postcode)"

definition transit_failed :: "Sources \<Rightarrow> Coordinates \<Rightarrow> bool" where
  "transit_failed env coords \<longleftrightarrow>
     cached_transport env coords = None \<and> google_places_key env
     \<and> failed (http_transit env coords)"

definition amenities_failed :: "Sources \<Rightarrow> Coordinates \<Rightarrow> bool" where
  "amenities_failed env coords \<longleftrightarrow>
     cached_amenities env coords = None \<and> google_places_key env
     \<and> list_all (\<lambda>amenityType. failed (http_amenities env coords amenityType)) amenityTypes"

text \<open>The number of failed providers.\<close>

definition failures :: "Sources \<Rightarrow> string \<Rightarrow> Coordinates \<Rightarrow> nat" where
  "failures env address' coords =
     length (filter id
       [listing_failed env address',
        registry_failed env (extractPostcode env address'),
        transit_failed env coords,
        amenities_failed env coords])"

text \<open>The \<open>dataQuality\<close> literal of the basic branch, and the eight provider calls in the
  order in which \<open>analyze\<close> makes them.\<close>

definition basic_quality :: DataQuality where
  "basic_quality = \<lparr>overallScore = 60, comparablesQuality = Low, marketDataQuality = Low,
     planningDataQuality = Low, warnings = [''Basic analysis - limited data gathered'']\<rparr>"

definition all_calls :: "provider list" where
  "all_calls = [GetCoordinates, GetPropertyDetails, GetPlanningHistory, GetComparables,
     GetMarketData, GetTransportLinks, GetLocalAmenities, CheckPlanningRestrictions]"

text \<open>The text of the basic-mode warning as the specification gives it, in UTF-8: lower
  case, with an em dash.\<close>

definition basic_warning_spec :: string where
  "basic_warning_spec =
     ''basic analysis '' @ [CHR 0xE2, CHR 0x80, CHR 0x94] @ '' limited data gathered''"

text \<open>The fixtures of \<open>__tests__/PropertyAnalyzer.test.ts\<close>, completed to the full types;
  the postcode is one whose area (W1) has figures that doubles hold exactly.\<close>

definition comparable_rated :: "Rating \<Rightarrow> real \<Rightarrow> Comparable" where
  "comparable_rated r p =
     \<lparr>c_address = ''Unknown'', price = p, saleDate = ''2024-01-15'', c_propertyType = ''Unknown'',
      c_bedrooms = 0, c_floorArea = None, pricePerSqFt = 0, c_distance = 1 / 2, rating = r,
      source = ''Land Registry'', c_url = None\<rparr>"

definition planning_application :: "string \<Rightarrow> PlanningApplication" where
  "planning_application ref =
     \<lparr>reference = ref, description = ''Single storey rear extension'', status = ''Approved'',
      date = ''2023-01-15'', decision = Some ''Approved'', url = None\<rparr>"

definition market_sample :: "real \<Rightarrow> MarketData" where
  "market_sample n = getDefaultMarketData\<lparr>sampleSize := n\<rparr>"

definition address0 :: string where
  "address0 = ''123 Main St, London W1A 1AA''"

definition coords0 :: Coordinates where
  "coords0 = \<lparr>lat = 515074 / 10000, lng = - (1278 / 10000)\<rparr>"

definition date0 :: string where
  "date0 = ''2024-06-01T12:00:00.000Z''"

definition card0 :: PropertyCard where
  "card0 = \<lparr>card_price = 450000, card_type = '''', card_bedrooms = 0\<rparr>"

definition link0 :: TransportLink where
  "link0 = \<lparr>t_type = Underground, t_name = ''Oxford Circus Underground Station'',
     t_distance = 3 / 10, walkingTime = 4, zones = Some []\<rparr>"

text \<open>An empty, usable cache, and every request answered.\<close>

definition sources_ok :: Sources where
  "sources_ok =
     \<lparr>extractPostcode = (\<lambda>a. ''W1A1AA''),
      double_times = exact_times,
      google_places_key = True,
      cache_usable = True,
      cached_coordinates = (\<lambda>p. None),
      http_postcode = (\<lambda>p. Success coords0),
      http_admin_district = (\<lambda>p. Success ''Westminster''),
      cached_details = (\<lambda>a. None),
      http_rightmove = (\<lambda>a. Success (Some card0)),
      cached_planning = (\<lambda>a. None),
      cached_comparables = (\<lambda>p. None),
      http_landRegistry = (\<lambda>p. Success
         [comparable_rated Medium 500000, comparable_rated Medium 480000,
          comparable_rated Medium 520000]),
      enrich = (\<lambda>c comp. comp),
      cached_market = (\<lambda>p. None),
      cached_transport = (\<lambda>c. None),
      http_transit = (\<lambda>c. Success [link0]),
      cached_amenities = (\<lambda>c. None),
      http_amenities = (\<lambda>c t. Success []),
      cached_restrictions = (\<lambda>c. None)\<rparr>"

text \<open>The postcode service does not answer.\<close>

definition sources_down :: Sources where
  "sources_down =
     sources_ok\<lparr>http_postcode := (\<lambda>p. Failure ''Network error''),
                http_admin_district := (\<lambda>p. Failure ''Network error'')\<rparr>"

text \<open>Only the request for transit stations fails.\<close>

definition sources_no_transport :: Sources where
  "sources_no_transport =
     sources_ok\<lparr>http_transit := (\<lambda>c. Failure ''timeout of 30000ms exceeded'')\<rparr>"

text \<open>Geocoding answers; every other request fails.\<close>

definition sources_offline :: Sources where
  "sources_offline =
     sources_ok\<lparr>http_admin_district := (\<lambda>p. Failure ''Network error''),
                http_rightmove := (\<lambda>a. Failure ''Network error''),
                http_landRegistry := (\<lambda>p. Failure ''Network error''),
                http_transit := (\<lambda>c. Failure ''Network error''),
                http_amenities := (\<lambda>c t. Failure ''Network error'')\<rparr>"

text \<open>Everything is in the cache; no request would be answered.\<close>

definition sources_cached :: Sources where
  "sources_cached =
     sources_offline\<lparr>
       cached_details := (\<lambda>a. Some
         \<lparr>d_currentValue = 450000, d_propertyType = ''Flat'', d_bedrooms = 2, d_bathrooms = 1,
          d_tenure = ''Leasehold'', d_useClass = ''C3'', d_localAuthority = ''Westminster''\<rparr>),
       cached_planning := (\<lambda>a. Some [planning_application ''P/2021/0042'']),
       cached_comparables := (\<lambda>p. Some [comparable_rated High 500000]),
       cached_market := (\<lambda>p. Some (market_sample 5)),
       cached_transport := (\<lambda>c. Some [link0]),
       cached_amenities := (\<lambda>c. Some []),
       cached_restrictions := (\<lambda>c. Some
         \<lparr>r_conservationArea = True, r_listedBuilding = False, r_article4Direction = False\<rparr>)\<rparr>"

text \<open>Every request is answered, but the listing page shows no property card.\<close>

definition sources_no_listing :: Sources where
  "sources_no_listing = sources_ok\<lparr>http_rightmove := (\<lambda>a. Success None)\<rparr>"

section \<open>Properties of the rate limiter\<close>

lemma getValidRequests_fst:
  "fst (getValidRequests cfg key now reqs) =
     filter (\<lambda>request. now - timestamp request < windowMs cfg) (requests_get reqs key)"
  by (simp add: getValidRequests_def Let_def)

lemma getValidRequests_same_key:
  "requests_get (snd (getValidRequests cfg key now reqs)) key =
     filter (\<lambda>request. now - timestamp request < windowMs cfg) (requests_get reqs key)"
proof -
  let ?rs = "requests_get reqs key"
  let ?vs = "filter (\<lambda>request. now - timestamp request < windowMs cfg) ?rs"
  show ?thesis
  proof (cases "length ?vs = length ?rs")
    case True
    then have "?vs = ?rs" by (metis filter_id_conv length_filter_less less_irrefl)
    with True show ?thesis by (simp add: getValidRequests_def Let_def)
  next
    case False
    then show ?thesis by (simp add: getValidRequests_def Let_def requests_get_def)
  qed
qed

lemma getValidRequests_other_key:
  "key' \<noteq> key \<Longrightarrow> snd (getValidRequests cfg key now reqs) key' = reqs key'"
  by (simp add: getValidRequests_def Let_def)

lemma canMakeRequest_fst:
  "fst (canMakeRequest cfg now identifier reqs) =
     (length (filter (\<lambda>request. now - timestamp request < windowMs cfg)
        (requests_get reqs (keyGenerator cfg identifier))) < maxRequests cfg)"
  by (simp add: canMakeRequest_def Let_def split_beta getValidRequests_fst)

lemma canMakeRequest_snd:
  "snd (canMakeRequest cfg now identifier reqs) =
     snd (getValidRequests cfg (keyGenerator cfg identifier) now reqs)"
  by (simp add: canMakeRequest_def Let_def split_beta)

lemma recordRequest_fst:
  "fst (recordRequest cfg now now' identifier success' reqs) =
     fst (canMakeRequest cfg now' identifier reqs)"
  by (simp add: recordRequest_def Let_def split_beta)

lemma recordRequest_records:
  "requests_get (snd (recordRequest cfg now now' identifier success' reqs)) (keyGenerator cfg identifier) =
     (let active = filter (\<lambda>request. now' - timestamp request < windowMs cfg)
                     (requests_get reqs (keyGenerator cfg identifier))
      in if length active < maxRequests cfg
            \<and> \<not> (success' \<and> skipSuccessfulRequests cfg)
            \<and> \<not> (\<not> success' \<and> skipFailedRequests cfg)
         then active @ [\<lparr>timestamp = now, success = success'\<rparr>]
         else active)"
  by (simp add: recordRequest_def Let_def split_beta canMakeRequest_fst canMakeRequest_snd
      getValidRequests_same_key) (simp add: requests_get_def)

lemma getValidRequests_all_valid:
  assumes "\<forall>r \<in> set (requests_get reqs key). now - timestamp r < windowMs cfg"
  shows "getValidRequests cfg key now reqs = (requests_get reqs key, reqs)"
  using assms by (simp add: getValidRequests_def Let_def)

lemma canMakeRequest_empty:
  "reqs (keyGenerator cfg identifier) = None \<Longrightarrow>
   canMakeRequest cfg now identifier reqs = (0 < maxRequests cfg, reqs)"
  by (simp add: canMakeRequest_def getValidRequests_def Let_def requests_get_def)

lemma canMakeRequest_calls_empty:
  "reqs (keyGenerator cfg identifier) = None \<Longrightarrow>
   canMakeRequest_calls cfg ts identifier reqs = (replicate (length ts) (0 < maxRequests cfg), reqs)"
  by (induction ts) (simp_all add: canMakeRequest_empty)

lemma recordRequest_calls_accepted:
  assumes "\<not> skipSuccessfulRequests cfg"
    and "length (requests_get reqs (keyGenerator cfg identifier)) + length ts \<le> maxRequests cfg"
    and "\<forall>t \<in> set ts. \<forall>u \<in> timestamp ` set (requests_get reqs (keyGenerator cfg identifier)) \<union> set ts.
           t - u < windowMs cfg"
  shows "fst (recordRequest_calls cfg ts identifier reqs) = replicate (length ts) True
       \<and> requests_get (snd (recordRequest_calls cfg ts identifier reqs)) (keyGenerator cfg identifier)
           = requests_get reqs (keyGenerator cfg identifier)
               @ map (\<lambda>t. \<lparr>timestamp = t, success = True\<rparr>) ts"
  using assms
proof (induction ts arbitrary: reqs)
  case Nil
  then show ?case by simp
next
  case (Cons t ts)
  let ?key = "keyGenerator cfg identifier"
  let ?rs = "requests_get reqs ?key"
  let ?step = "recordRequest cfg t t identifier True reqs"
  have valid: "\<forall>r \<in> set ?rs. t - timestamp r < windowMs cfg"
    using Cons.prems(3) by auto
  then have act: "filter (\<lambda>request. t - timestamp request < windowMs cfg) ?rs = ?rs"
    by simp
  have room: "length ?rs < maxRequests cfg"
    using Cons.prems(2) by simp
  have ok: "fst ?step = True"
    by (simp add: recordRequest_fst canMakeRequest_fst act room)
  have recs: "requests_get (snd ?step) ?key = ?rs @ [\<lparr>timestamp = t, success = True\<rparr>]"
    using Cons.prems(1) by (simp add: recordRequest_records act room)
  have len: "length (requests_get (snd ?step) ?key) + length ts \<le> maxRequests cfg"
    using Cons.prems(2) by (simp add: recs)
  have win: "\<forall>t' \<in> set ts. \<forall>u \<in> timestamp ` set (requests_get (snd ?step) ?key) \<union> set ts.
           t' - u < windowMs cfg"
    using Cons.prems(3) by (auto simp: recs)
  note IH = Cons.IH [OF Cons.prems(1) len win]
  show ?case
    using IH ok by (simp add: split_beta recs)
qed

lemma sorted_hd_last:
  "sorted (ts :: int list) \<Longrightarrow> t \<in> set ts \<Longrightarrow> hd ts \<le> t \<and> t \<le> last ts"
proof (induction ts)
  case Nil
  then show ?case by simp
next
  case (Cons a ts)
  show ?case
  proof (cases "ts = []")
    case True
    with Cons.prems show ?thesis by simp
  next
    case False
    then have "last ts \<in> set ts" by simp
    with Cons.prems(1) have "a \<le> last ts" by simp
    with Cons False show ?thesis by auto
  qed
qed

lemma sorted_span:
  assumes "sorted (ts :: int list)" and "t \<in> set ts" and "u \<in> set ts"
  shows "t - u \<le> last ts - hd ts"
  using sorted_hd_last [OF assms(1,2)] sorted_hd_last [OF assms(1,3)] by arith

lemma min_list_member: "xs \<noteq> [] \<Longrightarrow> min_list xs \<in> set (xs :: int list)"
  by (simp add: min_list_Min)

lemma getResetTime_after_pruning:
  "resetTimeMs (fst (getStatus cfg now now identifier reqs)) = resetIn_spec cfg now identifier reqs"
proof -
  let ?key = "keyGenerator cfg identifier"
  let ?active = "filter (\<lambda>request. now - timestamp request < windowMs cfg) (requests_get reqs ?key)"
  have stored: "requests_get (snd (getValidRequests cfg ?key now reqs)) ?key = ?active"
    by (rule getValidRequests_same_key)
  have pos: "0 \<le> min_list (map timestamp ?active) + windowMs cfg - now" if "?active \<noteq> []"
  proof -
    from that have "min_list (map timestamp ?active) \<in> set (map timestamp ?active)"
      by (intro min_list_member) simp
    then obtain r where "r \<in> set ?active" and "min_list (map timestamp ?active) = timestamp r"
      by auto
    then show ?thesis by simp
  qed
  show ?thesis
    using pos
    by (simp add: getStatus_def getRemainingRequests_def getResetTime_def resetIn_spec_def
        split_beta Let_def stored)
qed

lemma default_config_simps:
  "windowMs default_config = 60000" "maxRequests default_config = 60"
  "keyGenerator default_config identifier = identifier"
  "skipSuccessfulRequests default_config = False" "skipFailedRequests default_config = False"
  by (simp_all add: default_config_def RateLimiter_config_def no_options_def)

lemma requests_get_initial: "requests_get RateLimiter_requests key = []"
  by (simp add: requests_get_def RateLimiter_requests_def)

text \<open>
  Claim C7 as stated fails: \<open>canMakeRequest\<close> records nothing, so 61 consecutive calls on
  a new limiter with the default configuration all succeed and leave it unchanged.
\<close>

theorem canMakeRequest_never_records:
  "canMakeRequest_calls default_config (replicate 61 0) ''default'' RateLimiter_requests
     = (replicate 61 True, RateLimiter_requests)"
  using canMakeRequest_calls_empty
    [of RateLimiter_requests default_config "''default''" "replicate 61 0"]
  by (simp add: default_config_simps RateLimiter_requests_def)

text \<open>
  Claim C7, amended. With 60 requests per 60000 ms, 60 consecutive \<open>recordRequest\<close>
  calls for one identifier whose clock readings span less than the window are all
  accepted; from then on, while the oldest record is younger than the window,
  \<open>canMakeRequest\<close> answers false and a 61st \<open>recordRequest\<close> is refused; once the oldest
  record is 60000 ms old or older, \<open>canMakeRequest\<close> answers true again. In general
  \<open>canMakeRequest\<close> answers true exactly when the number of the identifier's records of
  age strictly below the window is strictly below \<open>maxRequests\<close>.
\<close>

theorem sliding_window_admission:
  assumes "length ts = 60" and "sorted ts" and "last ts - hd ts < 60000"
  shows "fst (recordRequest_calls default_config ts identifier RateLimiter_requests) = replicate 60 True
    \<and> (\<forall>now. now - hd ts < 60000 \<longrightarrow>
          \<not> fst (canMakeRequest default_config now identifier
                  (snd (recordRequest_calls default_config ts identifier RateLimiter_requests)))
          \<and> \<not> fst (recordRequest default_config now now identifier True
                  (snd (recordRequest_calls default_config ts identifier RateLimiter_requests))))
    \<and> (\<forall>now. 60000 \<le> now - hd ts \<longrightarrow>
          fst (canMakeRequest default_config now identifier
                  (snd (recordRequest_calls default_config ts identifier RateLimiter_requests))))
    \<and> (\<forall>cfg now identifier' reqs.
          fst (canMakeRequest cfg now identifier' reqs) =
            (length (filter (\<lambda>request. now - timestamp request < windowMs cfg)
               (requests_get reqs (keyGenerator cfg identifier'))) < maxRequests cfg))"
proof -
  let ?run = "recordRequest_calls default_config ts identifier RateLimiter_requests"
  let ?mk = "\<lambda>t. \<lparr>timestamp = t, success = True\<rparr>"
  have ne: "ts \<noteq> []" using assms(1) by auto
  note empty = requests_get_initial
  have pair: "\<forall>t \<in> set ts. \<forall>u \<in> timestamp ` set (requests_get RateLimiter_requests
                 (keyGenerator default_config identifier)) \<union> set ts. t - u < windowMs default_config"
  proof (intro ballI)
    fix t u
    assume "t \<in> set ts"
      and "u \<in> timestamp ` set (requests_get RateLimiter_requests
                 (keyGenerator default_config identifier)) \<union> set ts"
    then have "t - u \<le> last ts - hd ts"
      using sorted_span [OF assms(2)] by (simp add: empty)
    then show "t - u < windowMs default_config"
      using assms(3) by (simp add: default_config_simps)
  qed
  have run: "fst ?run = replicate (length ts) True
     \<and> requests_get (snd ?run) (keyGenerator default_config identifier)
          = requests_get RateLimiter_requests (keyGenerator default_config identifier) @ map ?mk ts"
    by (rule recordRequest_calls_accepted)
       (use pair in \<open>simp_all add: default_config_simps empty assms(1)\<close>)
  then have recs: "requests_get (snd ?run) identifier = map ?mk ts"
    by (simp add: empty default_config_simps)
  have denied: "\<not> fst (canMakeRequest default_config now identifier (snd ?run))"
    if "now - hd ts < 60000" for now
  proof -
    have "now - t < 60000" if "t \<in> set ts" for t
      using sorted_hd_last [OF assms(2) that] \<open>now - hd ts < 60000\<close> by arith
    then have "filter (\<lambda>request. now - timestamp request < 60000) (map ?mk ts) = map ?mk ts"
      by (simp add: filter_map o_def)
    then show ?thesis
      by (simp add: canMakeRequest_fst default_config_simps recs assms(1))
  qed
  have again: "fst (canMakeRequest default_config now identifier (snd ?run))"
    if "60000 \<le> now - hd ts" for now
  proof -
    have "?mk (hd ts) \<in> set (map ?mk ts)"
      using ne by simp
    moreover have "\<not> now - timestamp (?mk (hd ts)) < 60000"
      using that by simp
    ultimately have "length (filter (\<lambda>request. now - timestamp request < 60000) (map ?mk ts))
            < length (map ?mk ts)"
      by (rule length_filter_less)
    then show ?thesis
      using assms(1) by (simp add: canMakeRequest_fst default_config_simps recs)
  qed
  show ?thesis
    using run denied again by (simp add: assms(1) canMakeRequest_fst recordRequest_fst)
qed

text \<open>
  One request per second from 0 s to 59 s; a check at 59.999 s and one at 60 s.
\<close>

theorem sliding_window_admission_witness:
  "fst (recordRequest_calls default_config (map (\<lambda>i. 1000 * int i) [0..<60]) ''default''
          RateLimiter_requests) = replicate 60 True
   \<and> \<not> fst (canMakeRequest default_config 59999 ''default''
          (snd (recordRequest_calls default_config (map (\<lambda>i. 1000 * int i) [0..<60]) ''default''
             RateLimiter_requests)))
   \<and> fst (canMakeRequest default_config 60000 ''default''
          (snd (recordRequest_calls default_config (map (\<lambda>i. 1000 * int i) [0..<60]) ''default''
             RateLimiter_requests)))"
proof -
  let ?ts = "map (\<lambda>i. 1000 * int i) [0..<60]"
  have h1: "length ?ts = 60" by simp
  have h2: "sorted ?ts" by (simp add: sorted_map sorted_wrt_iff_nth_less)
  have h3: "last ?ts - hd ?ts < 60000" by (simp add: last_map hd_map)
  have h4: "hd ?ts = 0" by (simp add: hd_map)
  note w = sliding_window_admission [OF h1 h2 h3, of "''default''"]
  note a = w [THEN conjunct1]
  note b = w [THEN conjunct2, THEN conjunct1, rule_format, of 59999]
  note c = w [THEN conjunct2, THEN conjunct2, THEN conjunct1, rule_format, of 60000]
  from a b c show ?thesis
    unfolding h4 by simp
qed

text \<open>
  Claim C8. \<open>getResetTime\<close> does not leave stale records out. With records at 0 ms and
  30000 ms and a window of 60000 ms, at 70000 ms the first record is stale and the
  second becomes stale in 20000 ms, which is what the specification asks for; the code
  takes the minimum over both records and returns 0.
\<close>

theorem getResetTime_counts_stale_record:
  "getResetTime default_config 70000 ''default''
     (snd (recordRequest default_config 30000 30000 ''default'' True
        (snd (recordRequest default_config 0 0 ''default'' True RateLimiter_requests)))) = 0
   \<and> resetIn_spec default_config 70000 ''default''
     (snd (recordRequest default_config 30000 30000 ''default'' True
        (snd (recordRequest default_config 0 0 ''default'' True RateLimiter_requests)))) = 20000"
  by (simp add: getResetTime_def resetIn_spec_def recordRequest_def canMakeRequest_def
      getValidRequests_def requests_get_def default_config_simps RateLimiter_requests_def Let_def)

text \<open>
  Claim C10 as stated fails under \<open>skipSuccessfulRequests\<close>: recording a success
  returns true and appends nothing.
\<close>

theorem recordRequest_skipped_outcome:
  "fst (recordRequest skip_success_config 0 0 ''default'' True RateLimiter_requests)
   \<and> snd (recordRequest skip_success_config 0 0 ''default'' True RateLimiter_requests)
       = RateLimiter_requests"
  by (simp add: recordRequest_def canMakeRequest_def getValidRequests_def requests_get_def
      skip_success_config_def RateLimiter_config_def no_options_def RateLimiter_requests_def)

text \<open>
  Claim C10, amended. \<open>recordRequest\<close> returns the answer of \<open>canMakeRequest\<close> at record
  time. It appends one record with its own clock reading exactly when that answer is
  true and the outcome is not one the configuration skips; a skipped outcome returns
  true and appends nothing; a refused one returns false and appends nothing. In every
  case the records left for the identifier are the ones still inside the window.
\<close>

theorem recordRequest_accepts_iff_admitted:
  "fst (recordRequest cfg now now' identifier success' reqs)
     = fst (canMakeRequest cfg now' identifier reqs)
   \<and> requests_get (snd (recordRequest cfg now now' identifier success' reqs))
        (keyGenerator cfg identifier)
     = (if fst (canMakeRequest cfg now' identifier reqs)
           \<and> \<not> (success' \<and> skipSuccessfulRequests cfg)
           \<and> \<not> (\<not> success' \<and> skipFailedRequests cfg)
        then filter (\<lambda>request. now' - timestamp request < windowMs cfg)
               (requests_get reqs (keyGenerator cfg identifier))
             @ [\<lparr>timestamp = now, success = success'\<rparr>]
        else filter (\<lambda>request. now' - timestamp request < windowMs cfg)
               (requests_get reqs (keyGenerator cfg identifier)))"
  by (simp add: recordRequest_fst recordRequest_records canMakeRequest_fst Let_def)

text \<open>
  A failure recorded on a new limiter with the default configuration.
\<close>

theorem recordRequest_accepts_iff_admitted_witness:
  "fst (recordRequest default_config 5 5 ''default'' False RateLimiter_requests)
   \<and> requests_get (snd (recordRequest default_config 5 5 ''default'' False RateLimiter_requests))
        ''default'' = [\<lparr>timestamp = 5, success = False\<rparr>]"
  using recordRequest_accepts_iff_admitted [of default_config 5 5 "''default''" False RateLimiter_requests]
  by (simp add: canMakeRequest_fst requests_get_initial default_config_simps)

section \<open>Properties of the cache\<close>

lemma fold_delete_filter:
  "fold (\<lambda>ke c. AList.delete (fst ke) c) ys c = filter (\<lambda>ke. fst ke \<notin> fst ` set ys) c"
proof (induction ys arbitrary: c)
  case Nil
  then show ?case by simp
next
  case (Cons y ys)
  have "AList.delete (fst y) c = filter (\<lambda>ke. fst ke \<noteq> fst y) c"
    by (induction c) (auto simp: AList.delete_eq)
  then show ?case
    by (simp add: Cons.IH)
qed

lemma distinct_keys_sort_key:
  "distinct (map fst xs) \<Longrightarrow> distinct (map fst (sort_key f xs))"
proof -
  assume d: "distinct (map fst xs)"
  have "mset (map fst (sort_key f xs)) = mset (map fst xs)"
    by simp
  then show ?thesis using d by (metis distinct_count_atmost_1 set_mset_mset)
qed

lemma evictOldest_cache:
  assumes "distinct (map fst (cache s))"
  shows "mset (cache (evictOldest s))
           = mset (drop (max 1 (maxSize s div 10)) (sort_key rank (cache s)))"
proof -
  let ?n = "max 1 (maxSize s div 10)"
  let ?es = "sort_key rank (cache s)"
  let ?K = "fst ` set (take ?n ?es)"
  have d: "distinct (map fst ?es)"
    using assms by (rule distinct_keys_sort_key)
  have split: "?es = take ?n ?es @ drop ?n ?es" by simp
  have disj: "fst ` set (take ?n ?es) \<inter> fst ` set (drop ?n ?es) = {}"
    using d by (metis append_take_drop_id distinct_append map_append set_map)
  have "mset (cache (evictOldest s)) = filter_mset (\<lambda>ke. fst ke \<notin> ?K) (mset (cache s))"
    by (simp add: evictOldest_def Let_def fold_delete_filter)
  also have "mset (cache s) = mset ?es" by simp
  also have "filter_mset (\<lambda>ke. fst ke \<notin> ?K) (mset ?es)
      = mset (filter (\<lambda>ke. fst ke \<notin> ?K) ?es)"
    by simp
  also have "filter (\<lambda>ke. fst ke \<notin> ?K) ?es = drop ?n ?es"
  proof -
    have "filter (\<lambda>ke. fst ke \<notin> ?K) ?es
        = filter (\<lambda>ke. fst ke \<notin> ?K) (take ?n ?es) @ filter (\<lambda>ke. fst ke \<notin> ?K) (drop ?n ?es)"
      by (metis filter_append append_take_drop_id)
    moreover
    have "filter (\<lambda>ke. fst ke \<notin> ?K) (take ?n ?es) = []"
      by (auto simp: filter_empty_conv)
    moreover have "filter (\<lambda>ke. fst ke \<notin> ?K) (drop ?n ?es) = drop ?n ?es"
      using disj by (auto simp: filter_id_conv)
    ultimately show ?thesis by simp
  qed
  finally show ?thesis .
qed

lemma evictOldest_length:
  assumes "distinct (map fst (cache s))"
  shows "length (cache (evictOldest s)) = length (cache s) - max 1 (maxSize s div 10)"
proof -
  have "length (cache (evictOldest s)) = size (mset (cache (evictOldest s)))" by simp
  also have "\<dots> = length (drop (max 1 (maxSize s div 10)) (sort_key rank (cache s)))"
    by (simp only: evictOldest_cache [OF assms] size_mset)
  finally show ?thesis by simp
qed

lemma evictOldest_distinct:
  "distinct (map fst (cache s)) \<Longrightarrow> distinct (map fst (cache (evictOldest s)))"
  by (simp add: evictOldest_def Let_def fold_delete_filter distinct_map_filter)

lemma evictOldest_fields [simp]:
  "maxSize (evictOldest s) = maxSize s" "defaultTTL (evictOldest s) = defaultTTL s"
  by (simp_all add: evictOldest_def Let_def)

lemma length_update_le: "length (AList.update k v al) \<le> Suc (length al)"
  by (induction al) auto

lemma length_update_present:
  "map_of al k = Some v' \<Longrightarrow> length (AList.update k v al) = length al"
  by (induction al) (auto split: if_splits)

lemma cache_set_fields [simp]:
  "maxSize (cache_set fmul now key v ttlMinutes s) = maxSize s"
  "defaultTTL (cache_set fmul now key v ttlMinutes s) = defaultTTL s"
  by (simp_all add: cache_set_def Let_def)

lemma cache_set_inv:
  assumes "cache_inv s" and "0 < maxSize s"
  shows "cache_inv (cache_set fmul now key v ttlMinutes s)"
proof -
  let ?s1 = "if length (cache s) \<ge> maxSize s then evictOldest s else s"
  from assms(1) have d: "distinct (map fst (cache s))" and le: "length (cache s) \<le> maxSize s"
    by (simp_all add: cache_inv_def)
  have d1: "distinct (map fst (cache ?s1))"
    using d by (simp add: evictOldest_distinct)
  have lt: "length (cache ?s1) < maxSize s"
    using le assms(2) by (auto simp: evictOldest_length [OF d])
  have "length (AList.update key e (cache ?s1)) \<le> maxSize s" for e
    using lt length_update_le [of key e "cache ?s1"] by arith
  moreover have "distinct (map fst (AList.update key e (cache ?s1)))" for e
    using d1 by (rule distinct_update)
  ultimately show ?thesis
    by (auto simp: cache_inv_def cache_set_def Let_def split: if_splits)
qed

lemma cache_get_fields [simp]:
  "maxSize (snd (cache_get now key s)) = maxSize s"
  "defaultTTL (snd (cache_get now key s)) = defaultTTL s"
  by (simp_all add: cache_get_def split: option.splits)

lemma cache_get_inv:
  assumes "cache_inv s"
  shows "cache_inv (snd (cache_get now key s))"
  using assms length_delete_le [of key "cache s"]
  by (auto simp: cache_inv_def cache_get_def distinct_delete distinct_update
      length_update_present split: option.splits)

lemma cache_has_inv:
  assumes "cache_inv s"
  shows "cache_inv (snd (cache_has now key s)) \<and> maxSize (snd (cache_has now key s)) = maxSize s"
  using assms length_delete_le [of key "cache s"]
  by (auto simp: cache_inv_def cache_has_def distinct_delete split: option.splits)

lemma cache_delete_inv:
  assumes "cache_inv s"
  shows "cache_inv (snd (cache_delete key s)) \<and> maxSize (snd (cache_delete key s)) = maxSize s"
  using assms length_delete_le [of key "cache s"]
  by (auto simp: cache_inv_def cache_delete_def distinct_delete)

lemma cache_clear_inv:
  "cache_inv (cache_clear s) \<and> maxSize (cache_clear s) = maxSize s"
  by (simp add: cache_inv_def cache_clear_def)

lemma cache_cleanup_inv:
  assumes "cache_inv s"
  shows "cache_inv (cache_cleanup now s) \<and> maxSize (cache_cleanup now s) = maxSize s"
proof -
  have "length (filter P (cache s)) \<le> maxSize s" for P
    using assms by (auto simp: cache_inv_def intro: le_trans [OF length_filter_le])
  then show ?thesis
    using assms by (simp add: cache_inv_def cache_cleanup_def distinct_map_filter)
qed

lemma refresh_inv:
  assumes "cache_inv s"
  shows "cache_inv (snd (refresh fmul now key ttlMinutes s))
       \<and> maxSize (snd (refresh fmul now key ttlMinutes s)) = maxSize s"
  using assms
  by (auto simp: cache_inv_def refresh_def distinct_update length_update_present
      split: option.splits)

lemma getOrSet_inv:
  assumes "cache_inv s" and "0 < maxSize s"
  shows "cache_inv (snd (getOrSet fmul now now' key fn ttlMinutes s))
       \<and> maxSize (snd (getOrSet fmul now now' key fn ttlMinutes s)) = maxSize s"
proof -
  obtain r s1 where g: "cache_get now key s = (r, s1)" by (cases "cache_get now key s")
  have s1: "cache_inv s1" "maxSize s1 = maxSize s"
    using cache_get_inv [OF assms(1), of now key] cache_get_fields(1) [of now key s] g by simp_all
  show ?thesis
    using s1 assms(2) cache_set_inv [of s1]
    by (cases r; cases fn) (simp_all add: getOrSet_def g)
qed

lemma cache_step_inv:
  assumes "cache_inv s" and "0 < maxSize s"
  shows "cache_inv (cache_step fmul op s) \<and> maxSize (cache_step fmul op s) = maxSize s"
proof (cases op)
  case (Pair now c)
  show ?thesis
    using assms cache_get_inv [OF assms(1)] cache_has_inv [OF assms(1)]
      cache_delete_inv [OF assms(1)] cache_cleanup_inv [OF assms(1)] refresh_inv [OF assms(1)]
      getOrSet_inv [OF assms] cache_set_inv [OF assms] cache_clear_inv [of s]
    by (cases c) (simp_all add: Pair)
qed

lemma cache_run_inv:
  assumes "cache_inv s" and "0 < maxSize s"
  shows "cache_inv (cache_run fmul ops s) \<and> maxSize (cache_run fmul ops s) = maxSize s"
  using assms unfolding cache_run_def
proof (induction ops arbitrary: s)
  case Nil
  then show ?case by simp
next
  case (Cons op ops)
  from cache_step_inv [OF Cons.prems, where op = op and fmul = fmul]
  have "cache_inv (cache_step fmul op s)" and m: "maxSize (cache_step fmul op s) = maxSize s" by simp_all
  with Cons.IH [of "cache_step fmul op s"] Cons.prems(2) show ?case by simp
qed

lemma CacheService_new_inv:
  "cache_inv (CacheService_new fmul d m)" "maxSize (CacheService_new fmul d m) = m"
  by (simp_all add: cache_inv_def CacheService_new_def)

lemma evictOldest_lowest:
  assumes "distinct (map fst (cache s))"
    and "x \<in> set (cache s) - set (cache (evictOldest s))"
    and "y \<in> set (cache (evictOldest s))"
  shows "rank x \<le> rank y"
proof -
  let ?n = "max 1 (maxSize s div 10)"
  let ?es = "sort_key rank (cache s)"
  have surv: "set (cache (evictOldest s)) = set (drop ?n ?es)"
    using evictOldest_cache [OF assms(1)] by (metis set_mset_mset)
  have "set (cache s) = set (take ?n ?es) \<union> set (drop ?n ?es)"
    by (metis append_take_drop_id set_append set_sort)
  with assms(2) surv have x: "x \<in> set (take ?n ?es)" by auto
  from assms(3) surv have y: "y \<in> set (drop ?n ?es)" by simp
  have "sorted (map rank (take ?n ?es @ drop ?n ?es))" by simp
  then show ?thesis
    using x y unfolding map_append sorted_append by auto
qed

text \<open>
  Claim C6, amended. For a capacity \<open>maxSize\<close> of at least 1, after any sequence of
  cache operations on a new cache the store holds at most \<open>maxSize\<close> entries. An
  eviction from such a state removes at most \<open>max 1 (maxSize div 10)\<close> entries, every
  entry it removes ranks no higher by (access count, last access) than every entry it
  keeps, and after a further insert the store still holds at most \<open>maxSize\<close> entries.
\<close>

theorem cache_capacity:
  assumes "0 < m"
  shows "length (cache (cache_run fmul ops (CacheService_new fmul d m))) \<le> m
    \<and> length (cache (cache_run fmul ops (CacheService_new fmul d m)))
        - length (cache (evictOldest (cache_run fmul ops (CacheService_new fmul d m))))
        \<le> max 1 (m div 10)
    \<and> (\<forall>x \<in> set (cache (cache_run fmul ops (CacheService_new fmul d m)))
              - set (cache (evictOldest (cache_run fmul ops (CacheService_new fmul d m)))).
        \<forall>y \<in> set (cache (evictOldest (cache_run fmul ops (CacheService_new fmul d m)))).
          rank x \<le> rank y)
    \<and> length (cache (cache_set fmul now key v ttlMinutes (cache_run fmul ops (CacheService_new fmul d m)))) \<le> m"
proof -
  let ?s = "cache_run fmul ops (CacheService_new fmul d m)"
  have inv: "cache_inv ?s" and ms: "maxSize ?s = m"
    using cache_run_inv [where s = "CacheService_new fmul d m" and fmul = fmul and ops = ops] assms
    by (simp_all add: CacheService_new_inv)
  then have d: "distinct (map fst (cache ?s))" and le: "length (cache ?s) \<le> m"
    by (simp_all add: cache_inv_def)
  have ev: "length (cache ?s) - length (cache (evictOldest ?s)) \<le> max 1 (m div 10)"
    by (simp add: evictOldest_length [OF d] ms)
  have "cache_inv (cache_set fmul now key v ttlMinutes ?s)"
    using inv assms ms by (simp add: cache_set_inv)
  then have after: "length (cache (cache_set fmul now key v ttlMinutes ?s)) \<le> m"
    by (simp add: cache_inv_def ms)
  show ?thesis
    using le ev after evictOldest_lowest [OF d] by blast
qed

lemma cache_set_lookup:
  "map_of (cache (cache_set fmul now key v ttlMinutes s)) key =
     Some \<lparr>data = v, entry_timestamp = now, ttl = ttl_of fmul s ttlMinutes, accessCount = 0,
           lastAccessed = now\<rparr>"
  by (simp add: cache_set_def Let_def update_conv')

lemma map_of_delete_same: "map_of (AList.delete k al) k = None"
  by (simp add: delete_conv')

text \<open>
  Claim C5, amended. The lifetime stored with an entry is the rounded product
  \<open>(ttlMinutes * 60) * 1000\<close> of doubles when a per-call TTL is supplied and is not 0,
  whatever the default TTL is, and the default TTL otherwise (an explicit 0 counts as
  not supplied). The rounded product can differ from the exact number of milliseconds in
  the last place, so it is the stored lifetime that decides at which millisecond the
  entry expires. A \<open>get\<close> no later than the stored lifetime after the \<open>set\<close> returns the
  value; in particular a \<open>get\<close> at the same instant does, when the stored lifetime is not
  negative. Once more than the stored lifetime has elapsed, \<open>get\<close> returns nothing and
  \<open>has\<close> returns false, either of them removes the entry, and a \<open>has\<close> after that \<open>get\<close>
  returns false. This holds for every rounding \<open>fmul\<close> of the product.
\<close>

theorem cache_ttl:
  "(real_of_int (now' - now) \<le> ttl_of fmul s ttlMinutes \<longrightarrow>
      fst (cache_get now' key (cache_set fmul now key v ttlMinutes s)) = Some v)
   \<and> (0 \<le> ttl_of fmul s ttlMinutes \<longrightarrow>
      fst (cache_get now key (cache_set fmul now key v ttlMinutes s)) = Some v)
   \<and> (real_of_int (now' - now) > ttl_of fmul s ttlMinutes \<longrightarrow>
      fst (cache_get now' key (cache_set fmul now key v ttlMinutes s)) = None
      \<and> map_of (cache (snd (cache_get now' key (cache_set fmul now key v ttlMinutes s)))) key = None
      \<and> fst (cache_has now' key (cache_set fmul now key v ttlMinutes s)) = False
      \<and> map_of (cache (snd (cache_has now' key (cache_set fmul now key v ttlMinutes s)))) key = None
      \<and> fst (cache_has now'' key (snd (cache_get now' key (cache_set fmul now key v ttlMinutes s))))
          = False)
   \<and> (\<forall>m. ttlMinutes = Some m \<and> m \<noteq> 0 \<longrightarrow> ttl_of fmul s ttlMinutes = fmul (fmul m 60) 1000)
   \<and> (ttlMinutes = None \<or> ttlMinutes = Some 0 \<longrightarrow> ttl_of fmul s ttlMinutes = defaultTTL s)"
  by (auto simp: cache_get_def cache_has_def cache_set_lookup map_of_delete_same ttl_of_def)

text \<open>
  Claim C5 as stated fails for a TTL of 0, which falls back to the default of 30
  minutes (the entry is still served after the TTL of 0 has elapsed), and for a negative
  TTL, with which a \<open>get\<close> at the instant of the \<open>set\<close> returns nothing.
\<close>

theorem cache_ttl_zero_and_negative:
  "fst (cache_get 1 ''k'' (cache_set exact_times 0 ''k'' (7::nat) (Some 0) (CacheService_new exact_times 30 1000))) = Some 7
   \<and> fst (cache_get 0 ''k'' (cache_set exact_times 0 ''k'' (7::nat) (Some (- 1)) (CacheService_new exact_times 30 1000)))
       = None"
  by (simp add: cache_get_def cache_set_lookup ttl_of_def CacheService_new_def exact_times_def)

text \<open>
  A TTL of one minute on a cache whose default is 30 minutes; both products are products
  of integers, which doubles hold exactly.
\<close>

theorem cache_ttl_witness:
  "fst (cache_get 0 ''k'' (cache_set exact_times 0 ''k'' (7::nat) (Some 1) (CacheService_new exact_times 30 1000))) = Some 7
   \<and> fst (cache_get 60000 ''k'' (cache_set exact_times 0 ''k'' (7::nat) (Some 1) (CacheService_new exact_times 30 1000)))
       = Some 7
   \<and> fst (cache_get 60001 ''k'' (cache_set exact_times 0 ''k'' (7::nat) (Some 1) (CacheService_new exact_times 30 1000)))
       = None
   \<and> fst (cache_has 60001 ''k'' (cache_set exact_times 0 ''k'' (7::nat) (Some 1) (CacheService_new exact_times 30 1000)))
       = False
   \<and> ttl_of exact_times (CacheService_new exact_times 30 1000 :: nat CacheService) (Some 1) = 60000
   \<and> ttl_of exact_times (CacheService_new exact_times 30 1000 :: nat CacheService) None = 1800000"
proof -
  let ?s = "CacheService_new exact_times 30 1000 :: nat CacheService"
  have t: "ttl_of exact_times ?s (Some 1) = 60000" "ttl_of exact_times ?s None = 1800000"
    by (simp_all add: ttl_of_def CacheService_new_def exact_times_def)
  note a = cache_ttl [where now' = 60000 and now = 0 and fmul = exact_times and s = ?s
      and ttlMinutes = "Some 1" and key = "''k''" and v = 7 and now'' = 60002]
  note b = cache_ttl [where now' = 60001 and now = 0 and fmul = exact_times and s = ?s
      and ttlMinutes = "Some 1" and key = "''k''" and v = 7 and now'' = 60002]
  note c = cache_ttl [where now' = 0 and now = 0 and fmul = exact_times and s = ?s
      and ttlMinutes = None and key = "''k''" and v = 7 and now'' = 0]
  from a b c show ?thesis
    by (simp add: t)
qed

text \<open>
  Claim C6 as stated fails for a capacity of 0: the first insert leaves one entry in
  the store.
\<close>

theorem cache_capacity_zero:
  "maxSize (cache_run exact_times [(0, Set ''a'' (1::nat) None)] (CacheService_new exact_times 30 0)) = 0
   \<and> length (cache (cache_run exact_times [(0, Set ''a'' (1::nat) None)] (CacheService_new exact_times 30 0))) = 1"
  by (simp add: cache_run_def cache_set_def evictOldest_def CacheService_new_def)

lemma run0:
  "cache_run exact_times ops0 (CacheService_new exact_times 30 2) =
     \<lparr>cache = [(''a'', \<lparr>data = 1, entry_timestamp = 0, ttl = 1800000, accessCount = 1, lastAccessed = 2\<rparr>),
               (''b'', \<lparr>data = 2, entry_timestamp = 1, ttl = 1800000, accessCount = 0, lastAccessed = 1\<rparr>)],
      defaultTTL = 1800000, maxSize = 2\<rparr>"
  by (simp add: ops0_def cache_run_def cache_set_def cache_get_def ttl_of_def CacheService_new_def
      exact_times_def)

lemma evict0:
  "cache (evictOldest (cache_run exact_times ops0 (CacheService_new exact_times 30 2))) =
     [(''a'', \<lparr>data = 1, entry_timestamp = 0, ttl = 1800000, accessCount = 1, lastAccessed = 2\<rparr>)]"
  by (simp add: run0 evictOldest_def rank_def AList.delete_eq)

text \<open>
  A cache of capacity 2, with the older key read once: the eviction removes the newer,
  never read key.
\<close>

theorem cache_capacity_witness:
  "length (cache (cache_run exact_times ops0 (CacheService_new exact_times 30 2))) \<le> 2
   \<and> length (cache (cache_run exact_times ops0 (CacheService_new exact_times 30 2)))
        - length (cache (evictOldest (cache_run exact_times ops0 (CacheService_new exact_times 30 2)))) \<le> 1
   \<and> rank (''b'', \<lparr>data = 2::nat, entry_timestamp = 1, ttl = 1800000, accessCount = 0, lastAccessed = 1\<rparr>)
        \<le> rank (''a'', \<lparr>data = 1::nat, entry_timestamp = 0, ttl = 1800000, accessCount = 1, lastAccessed = 2\<rparr>)
   \<and> length (cache (cache_set exact_times 3 ''c'' 3 None (cache_run exact_times ops0 (CacheService_new exact_times 30 2)))) \<le> 2"
proof -
  let ?s = "cache_run exact_times ops0 (CacheService_new exact_times 30 2)"
  let ?a = "(''a'', \<lparr>data = 1::nat, entry_timestamp = 0, ttl = 1800000, accessCount = 1, lastAccessed = 2\<rparr>)"
  let ?b = "(''b'', \<lparr>data = 2::nat, entry_timestamp = 1, ttl = 1800000, accessCount = 0, lastAccessed = 1\<rparr>)"
  have pos: "0 < (2::nat)" by simp
  have x: "?b \<in> set (cache ?s) - set (cache (evictOldest ?s))"
    by (simp add: evict0) (simp add: run0)
  have y: "?a \<in> set (cache (evictOldest ?s))"
    by (simp add: evict0)
  note w = cache_capacity [OF pos, where fmul = exact_times and ops = ops0 and d = 30 and now = 3
      and key = "''c''" and v = 3 and ttlMinutes = None]
  from w have "length (cache ?s) \<le> 2" by (rule conjunct1)
  moreover from w have "length (cache ?s) - length (cache (evictOldest ?s)) \<le> 1"
    by simp
  moreover from w x y have "rank ?b \<le> rank ?a" by blast
  moreover from w have "length (cache (cache_set exact_times 3 ''c'' 3 None ?s)) \<le> 2" by simp
  ultimately show ?thesis by blast
qed

section \<open>Properties of the analyzer\<close>

lemma getCoordinates_snd: "snd (getCoordinates env a calls) = calls @ [GetCoordinates]"
  by (simp add: getCoordinates_def Let_def)

lemma getCoordinates_usable:
  "fst (getCoordinates env a calls) = Inr c \<Longrightarrow> cache_usable env"
  by (simp add: getCoordinates_def Let_def split: if_splits)

lemma getCoordinates_message:
  "isl (fst (getCoordinates env a calls)) \<Longrightarrow>
   fst (getCoordinates env a calls) = Inl (Error (''Could not geocode address: '' @ a))"
  by (simp add: getCoordinates_def Let_def split: if_splits option.splits outcome.splits)

lemma getCoordinates_fails_iff:
  "isl (fst (getCoordinates env a calls)) \<longleftrightarrow>
     \<not> cache_usable env
     \<or> (cached_coordinates env (extractPostcode env a) = None
        \<and> failed (http_postcode env (extractPostcode env a)))"
  by (simp add: getCoordinates_def Let_def split: if_splits option.splits outcome.splits)

lemma getPropertyDetails_eq:
  "getPropertyDetails env a c calls =
     (Fulfilled (contributed_details env a c), calls @ [GetPropertyDetails])"
  by (simp add: contributed_details_def getPropertyDetails_def)

lemma getPlanningHistory_eq:
  "getPlanningHistory env a c calls =
     (Fulfilled (contributed_planning env a c), calls @ [GetPlanningHistory])"
  by (simp add: contributed_planning_def getPlanningHistory_def)

lemma getComparables_eq:
  "getComparables env c p calls =
     (Fulfilled (contributed_comparables env c p), calls @ [GetComparables])"
  by (simp add: contributed_comparables_def getComparables_def)

lemma getMarketData_eq:
  "getMarketData env p calls =
     (Fulfilled (contributed_market env p), calls @ [GetMarketData])"
  by (simp add: contributed_market_def getMarketData_def)

lemma getTransportLinks_eq:
  "getTransportLinks env c calls =
     (Fulfilled (contributed_transport env c), calls @ [GetTransportLinks])"
  by (simp add: contributed_transport_def getTransportLinks_def)

lemma getLocalAmenities_eq:
  "getLocalAmenities env c calls =
     (Fulfilled (contributed_amenities env c), calls @ [GetLocalAmenities])"
  by (simp add: contributed_amenities_def getLocalAmenities_def)

lemma checkPlanningRestrictions_eq:
  "checkPlanningRestrictions env c calls =
     (Fulfilled (contributed_restrictions env c), calls @ [CheckPlanningRestrictions])"
  by (simp add: contributed_restrictions_def checkPlanningRestrictions_def)

lemmas provider_eqs = getPropertyDetails_eq getPlanningHistory_eq getComparables_eq
  getMarketData_eq getTransportLinks_eq getLocalAmenities_eq checkPlanningRestrictions_eq

lemma analyze_seed_failed:
  assumes "isl (fst (getCoordinates env a calls))"
  shows "analyze env d a t calls =
     (Inl (Error (''Property analysis failed: Could not geocode address: '' @ a)),
      calls @ [GetCoordinates])"
proof -
  have "getCoordinates env a calls =
      (Inl (Error (''Could not geocode address: '' @ a)), calls @ [GetCoordinates])"
    using getCoordinates_message [OF assms] getCoordinates_snd [of env a calls]
    by (simp add: prod_eq_iff)
  then show ?thesis by (simp add: analyze_def)
qed

lemma analyze_basic:
  assumes "fst (getCoordinates env a calls) = Inr c"
  shows "analyze env d a ''basic'' calls =
     (Inr (result_of a c (contributed_details env a c) [] [] getDefaultMarketData [] []
             (contributed_restrictions env c) d basic_quality),
      calls @ all_calls)"
proof -
  have "getCoordinates env a calls = (Inr c, calls @ [GetCoordinates])"
    using assms getCoordinates_snd [of env a calls] by (simp add: prod_eq_iff)
  then show ?thesis
    by (simp add: analyze_def provider_eqs basic_quality_def all_calls_def)
qed

lemma analyze_comprehensive:
  assumes "fst (getCoordinates env a calls) = Inr c" and "t \<noteq> ''basic''"
  shows "analyze env d a t calls =
     (Inr (result_of a c
             (contributed_details env a c)
             (contributed_planning env a c)
             (contributed_comparables env c (extractPostcode env a))
             (contributed_market env (extractPostcode env a))
             (contributed_transport env c)
             (contributed_amenities env c)
             (contributed_restrictions env c) d
             (assessDataQuality
                (contributed_comparables env c (extractPostcode env a))
                (contributed_market env (extractPostcode env a))
                (contributed_planning env a c))),
      calls @ all_calls)"
proof -
  have "getCoordinates env a calls = (Inr c, calls @ [GetCoordinates])"
    using assms(1) getCoordinates_snd [of env a calls] by (simp add: prod_eq_iff)
  then show ?thesis
    using assms(2) by (simp add: analyze_def provider_eqs all_calls_def Let_def)
qed

text \<open>What the providers contribute when the cache is usable.\<close>

lemma contributed_details_cases:
  assumes "cache_usable env"
  shows "cached_details env a = Some d \<Longrightarrow> contributed_details env a c = d"
    and "cached_details env a = None \<Longrightarrow> scrapeRightmoveDetails env a = Some d
           \<Longrightarrow> d_currentValue d \<noteq> 0 \<Longrightarrow> contributed_details env a c = d"
    and "cached_details env a = None \<Longrightarrow> scrapeRightmoveDetails env a = Some d
           \<Longrightarrow> d_currentValue d = 0 \<Longrightarrow> contributed_details env a c = estimatePropertyDetails env a"
    and "cached_details env a = None \<Longrightarrow> scrapeRightmoveDetails env a = None
           \<Longrightarrow> contributed_details env a c = estimatePropertyDetails env a"
  using assms by (simp_all add: contributed_details_def getPropertyDetails_def)

lemma scrape_failed: "failed (http_rightmove env a) \<Longrightarrow> scrapeRightmoveDetails env a = None"
  by (cases "http_rightmove env a") (simp_all add: scrapeRightmoveDetails_def)

lemma contributed_details_failed:
  assumes "cache_usable env" and "listing_failed env a"
  shows "contributed_details env a c = estimatePropertyDetails env a"
  using assms contributed_details_cases(4) [OF assms(1), of a c]
  by (simp add: listing_failed_def scrape_failed)

lemma contributed_comparables_failed:
  assumes "cache_usable env" and "registry_failed env p"
  shows "contributed_comparables env c p = []"
  using assms
  by (cases "http_landRegistry env p")
     (simp_all add: registry_failed_def contributed_comparables_def getComparables_def
        getLandRegistryComparables_def)

lemma contributed_transport_failed:
  assumes "cache_usable env" and "transit_failed env c"
  shows "contributed_transport env c = []"
  using assms
  by (cases "http_transit env c")
     (simp_all add: transit_failed_def contributed_transport_def getTransportLinks_def)

lemma failed_contributes_nothing:
  "failed x \<Longrightarrow> (case x of Failure reason \<Rightarrow> [] | Success amenities \<Rightarrow> amenities) = []"
  by (cases x) simp_all

lemma contributed_amenities_failed:
  assumes "cache_usable env" and "amenities_failed env c"
  shows "contributed_amenities env c = []"
  using assms
  by (simp add: amenities_failed_def contributed_amenities_def getLocalAmenities_def
      amenityTypes_def failed_contributes_nothing)

lemma assessDataQuality_no_comparables:
  "warnings (assessDataQuality [] m ps) \<noteq> []"
  by (simp add: assessDataQuality_def Let_def)

text \<open>
  Claim C9. The scorer is a function of its three inputs. One comparable rated Low, a
  sample size of 5 and no planning history rate Low, Low, Low with an overall score of
  33; five comparables of which two are rated High, a sample size of 25 and one
  planning application rate High, High, Medium with an overall score of 89. For every
  input: the comparables rate High with at least five of them and at least two rated
  High, Medium with at least three, else Low; the market data rate High from a sample
  size of 20, Medium from 10, else Low; the planning history rates Medium when it is not
  empty, else Low; each component rated Low adds its warning, in that order; and the
  overall score is the rounded value of mean score / 3 * 100, with High = 3, Medium = 2,
  Low = 1. Numbers are exact here; the six values the expression can take (33.3, 44.4,
  55.6, 66.7, 77.8, 88.9) are far from a rounding boundary, so floating point gives the
  same integers.
\<close>

theorem assessDataQuality_rubric:
  "(rating c = Low \<and> sampleSize m = 5 \<longrightarrow>
      assessDataQuality [c] m [] =
        \<lparr>overallScore = 33, comparablesQuality = Low, marketDataQuality = Low,
         planningDataQuality = Low,
         warnings = [''Limited comparable sales data available'',
                     ''Market data based on limited sample size'',
                     ''No planning history data available'']\<rparr>)
   \<and> (length cs = 5 \<and> length (filter (\<lambda>c. rating c = High) cs) = 2 \<and> sampleSize m = 25 \<longrightarrow>
      assessDataQuality cs m [p] =
        \<lparr>overallScore = 89, comparablesQuality = High, marketDataQuality = High,
         planningDataQuality = Medium, warnings = []\<rparr>)
   \<and> overallScore (assessDataQuality cs m ps) =
       Math_round
         ((scores (comparablesQuality (assessDataQuality cs m ps))
           + scores (marketDataQuality (assessDataQuality cs m ps))
           + scores (planningDataQuality (assessDataQuality cs m ps))) / 3 / 3 * 100)
   \<and> comparablesQuality (assessDataQuality cs m ps) =
       (if 5 \<le> length cs \<and> 2 \<le> length (filter (\<lambda>c. rating c = High) cs) then High
        else if 3 \<le> length cs then Medium else Low)
   \<and> marketDataQuality (assessDataQuality cs m ps) =
       (if 20 \<le> sampleSize m then High else if 10 \<le> sampleSize m then Medium else Low)
   \<and> planningDataQuality (assessDataQuality cs m ps) = (if ps \<noteq> [] then Medium else Low)
   \<and> warnings (assessDataQuality cs m ps) =
       (if comparablesQuality (assessDataQuality cs m ps) = Low
        then [''Limited comparable sales data available''] else [])
       @ (if marketDataQuality (assessDataQuality cs m ps) = Low
          then [''Market data based on limited sample size''] else [])
       @ (if planningDataQuality (assessDataQuality cs m ps) = Low
          then [''No planning history data available''] else [])
   \<and> overallScore (assessDataQuality cs m ps) =
       (let total = scores (comparablesQuality (assessDataQuality cs m ps))
                    + scores (marketDataQuality (assessDataQuality cs m ps))
                    + scores (planningDataQuality (assessDataQuality cs m ps))
        in if total = 3 then 33 else if total = 4 then 44 else if total = 5 then 56
           else if total = 6 then 67 else if total = 7 then 78 else 89)"
  by (simp add: assessDataQuality_def Let_def Math_round_def)

text \<open>
  The two fixtures of the test suite.
\<close>

theorem assessDataQuality_rubric_witness:
  "assessDataQuality [comparable_rated Low 500000] (market_sample 5) [] =
      \<lparr>overallScore = 33, comparablesQuality = Low, marketDataQuality = Low,
       planningDataQuality = Low,
       warnings = [''Limited comparable sales data available'',
                   ''Market data based on limited sample size'',
                   ''No planning history data available'']\<rparr>
   \<and> assessDataQuality
        [comparable_rated High 500000, comparable_rated High 480000,
         comparable_rated Medium 520000, comparable_rated Medium 510000,
         comparable_rated Low 490000]
        (market_sample 25) [planning_application ''P/2023/001''] =
      \<lparr>overallScore = 89, comparablesQuality = High, marketDataQuality = High,
       planningDataQuality = Medium, warnings = []\<rparr>"
proof -
  let ?cs = "[comparable_rated High 500000, comparable_rated High 480000,
         comparable_rated Medium 520000, comparable_rated Medium 510000,
         comparable_rated Low 490000]"
  have lo: "rating (comparable_rated Low 500000) = Low \<and> sampleSize (market_sample 5) = 5"
    by (simp add: comparable_rated_def market_sample_def)
  have hi: "length ?cs = 5 \<and> length (filter (\<lambda>c. rating c = High) ?cs) = 2
      \<and> sampleSize (market_sample 25) = 25"
    by (simp add: comparable_rated_def market_sample_def)
  note a = assessDataQuality_rubric [of "comparable_rated Low 500000" "market_sample 5" ?cs
      "planning_application ''P/2023/001''" "[]", THEN conjunct1, rule_format, OF lo]
  note b = assessDataQuality_rubric [of "comparable_rated Low 500000" "market_sample 25" ?cs
      "planning_application ''P/2023/001''" "[]", THEN conjunct2, THEN conjunct1, rule_format, OF hi]
  from a b show ?thesis by (rule conjI)
qed

text \<open>
  Claim C1 as stated fails: with the address geocoded, nothing cached and every other
  request failing, all four providers that make requests have failed and the analysis
  returns a result, but its property details are not the defaults (a value of 0, type
  Unknown): they are the estimate for the postcode area, 1200000 and Terraced.
\<close>

theorem analyze_failed_listing_estimated:
  "fst (getCoordinates sources_offline address0 []) = Inr coords0
   \<and> failures sources_offline address0 coords0 = 4
   \<and> \<not> isl (fst (analyze sources_offline date0 address0 ''comprehensive'' []))
   \<and> currentValue (projr (fst (analyze sources_offline date0 address0 ''comprehensive'' [])))
       = 1200000
   \<and> propertyType (projr (fst (analyze sources_offline date0 address0 ''comprehensive'' [])))
       = ''Terraced''
   \<and> d_currentValue getDefaultPropertyDetails = 0
   \<and> d_propertyType getDefaultPropertyDetails = ''Unknown''"
proof -
  have seed: "fst (getCoordinates sources_offline address0 []) = Inr coords0"
    by (simp add: getCoordinates_def sources_offline_def sources_ok_def)
  have ne: "''comprehensive'' \<noteq> ''basic''" by simp
  have f: "failures sources_offline address0 coords0 = 4"
    by (simp add: failures_def listing_failed_def registry_failed_def transit_failed_def
        amenities_failed_def amenityTypes_def sources_offline_def sources_ok_def)
  have d: "contributed_details sources_offline address0 coords0
      = estimatePropertyDetails sources_offline address0"
    by (simp add: contributed_details_def getPropertyDetails_def scrapeRightmoveDetails_def
        sources_offline_def sources_ok_def)
  have e: "d_currentValue (estimatePropertyDetails sources_offline address0) = 1200000"
    "d_propertyType (estimatePropertyDetails sources_offline address0) = ''Terraced''"
    by (simp_all add: estimatePropertyDetails_def areaEstimates_def sources_offline_def
        sources_ok_def)
  show ?thesis
    unfolding analyze_comprehensive [OF seed ne]
    by (simp add: seed f result_of_def d e getDefaultPropertyDetails_def)
qed

text \<open>
  Claim C1, amended. \<open>analyze\<close> throws exactly when the seed resolution fails, that is
  when the cache is unusable or the postcode is not cached and its request fails, and
  then the message of the error ends with the address that could not be resolved; a
  thrown error is the left injection, so it comes with no partial result. When the seed
  resolution succeeds \<open>analyze\<close> returns a result, whatever the other providers do. In it
  a failed listing request is replaced by the estimate for the postcode area (the value
  of the area table or 400000, Terraced, 3 bedrooms, 1 bathroom, Freehold, C3), not by
  the default details; a failed registry request leaves no comparables, a failed transit
  request no transport links, and failed amenity requests no amenities. The list of
  warnings is not empty as soon as the registry request has failed, so in particular
  when every provider has failed.
\<close>

theorem analyze_throws_iff_seed_fails:
  "(isl (fst (analyze env isoDate a analysisType calls))
      \<longleftrightarrow> isl (fst (getCoordinates env a calls)))
   \<and> (isl (fst (getCoordinates env a calls)) \<longleftrightarrow>
        \<not> cache_usable env
        \<or> (cached_coordinates env (extractPostcode env a) = None
           \<and> failed (http_postcode env (extractPostcode env a))))
   \<and> (isl (fst (getCoordinates env a calls)) \<longrightarrow>
        fst (analyze env isoDate a analysisType calls) =
          Inl (Error (''Property analysis failed: Could not geocode address: '' @ a)))
   \<and> (\<forall>c. fst (getCoordinates env a calls) = Inr c \<longrightarrow>
        (\<exists>r. fst (analyze env isoDate a analysisType calls) = Inr r
           \<and> address r = a \<and> coordinates r = c
           \<and> (listing_failed env a \<longrightarrow> has_details r (estimatePropertyDetails env a))
           \<and> (registry_failed env (extractPostcode env a) \<longrightarrow> comparables r = [])
           \<and> (transit_failed env c \<longrightarrow> transportLinks r = [])
           \<and> (amenities_failed env c \<longrightarrow> localAmenities r = [])
           \<and> (registry_failed env (extractPostcode env a) \<longrightarrow> warnings (dataQuality r) \<noteq> [])))
   \<and> d_currentValue (estimatePropertyDetails env a) =
        (case map_of areaEstimates (take 2 (extractPostcode env a)) of
           Some v \<Rightarrow> v | None \<Rightarrow> 400000)
   \<and> d_propertyType (estimatePropertyDetails env a) = ''Terraced''
   \<and> d_bedrooms (estimatePropertyDetails env a) = 3
   \<and> d_bathrooms (estimatePropertyDetails env a) = 1
   \<and> d_tenure (estimatePropertyDetails env a) = ''Freehold''
   \<and> d_useClass (estimatePropertyDetails env a) = ''C3''"
proof -
  have est: "d_currentValue (estimatePropertyDetails env a) =
        (case map_of areaEstimates (take 2 (extractPostcode env a)) of
           Some v \<Rightarrow> v | None \<Rightarrow> 400000)
   \<and> d_propertyType (estimatePropertyDetails env a) = ''Terraced''
   \<and> d_bedrooms (estimatePropertyDetails env a) = 3
   \<and> d_bathrooms (estimatePropertyDetails env a) = 1
   \<and> d_tenure (estimatePropertyDetails env a) = ''Freehold''
   \<and> d_useClass (estimatePropertyDetails env a) = ''C3''"
    by (simp add: estimatePropertyDetails_def Let_def)
  show ?thesis
  proof (cases "isl (fst (getCoordinates env a calls))")
    case True
    then have no: "fst (getCoordinates env a calls) \<noteq> Inr c" for c
      by auto
    show ?thesis
      using True est getCoordinates_fails_iff [of env a calls]
      by (simp add: analyze_seed_failed no)
  next
    case False
    then obtain c where seed: "fst (getCoordinates env a calls) = Inr c"
      by (cases "fst (getCoordinates env a calls)") simp_all
    have u: "cache_usable env" using seed by (rule getCoordinates_usable)
    note fails = contributed_details_failed [OF u] contributed_comparables_failed [OF u]
      contributed_transport_failed [OF u] contributed_amenities_failed [OF u]
    show ?thesis
    proof (cases "analysisType = ''basic''")
      case True
      show ?thesis
        using seed est getCoordinates_fails_iff [of env a calls] fails
        by (simp add: True analyze_basic result_of_def has_details_def basic_quality_def)
    next
      case b: False
      show ?thesis
        using seed est getCoordinates_fails_iff [of env a calls] fails
        by (simp add: analyze_comprehensive [OF seed b] result_of_def has_details_def
            assessDataQuality_no_comparables)
    qed
  qed
qed

text \<open>
  An address whose postcode request fails, and an address that is geocoded while every
  other request fails, in both modes.
\<close>

theorem analyze_throws_iff_seed_fails_witness:
  "fst (analyze sources_down date0 address0 ''comprehensive'' []) =
      Inl (Error (''Property analysis failed: Could not geocode address: '' @ address0))
   \<and> (\<exists>r. fst (analyze sources_offline date0 address0 ''comprehensive'' []) = Inr r
         \<and> has_details r (estimatePropertyDetails sources_offline address0)
         \<and> comparables r = [] \<and> transportLinks r = [] \<and> localAmenities r = []
         \<and> warnings (dataQuality r) \<noteq> [])
   \<and> (\<exists>r. fst (analyze sources_offline date0 address0 ''basic'' []) = Inr r
         \<and> has_details r (estimatePropertyDetails sources_offline address0)
         \<and> comparables r = [] \<and> transportLinks r = [] \<and> localAmenities r = []
         \<and> warnings (dataQuality r) \<noteq> [])"
proof -
  have down: "isl (fst (getCoordinates sources_down address0 []))"
    by (simp add: getCoordinates_def sources_down_def sources_ok_def)
  have seed: "fst (getCoordinates sources_offline address0 []) = Inr coords0"
    by (simp add: getCoordinates_def sources_offline_def sources_ok_def)
  have f: "listing_failed sources_offline address0"
    "registry_failed sources_offline (extractPostcode sources_offline address0)"
    "transit_failed sources_offline coords0"
    "amenities_failed sources_offline coords0"
    by (simp_all add: listing_failed_def registry_failed_def transit_failed_def
        amenities_failed_def amenityTypes_def sources_offline_def sources_ok_def)
  note a = analyze_throws_iff_seed_fails
    [of sources_down date0 address0 "''comprehensive''" "[]"]
  note b = analyze_throws_iff_seed_fails
    [of sources_offline date0 address0 "''comprehensive''" "[]"]
  note c = analyze_throws_iff_seed_fails
    [of sources_offline date0 address0 "''basic''" "[]"]
  from a down have 1: "fst (analyze sources_down date0 address0 ''comprehensive'' []) =
      Inl (Error (''Property analysis failed: Could not geocode address: '' @ address0))"
    by blast
  from b seed f have 2: "\<exists>r. fst (analyze sources_offline date0 address0 ''comprehensive'' []) = Inr r
         \<and> has_details r (estimatePropertyDetails sources_offline address0)
         \<and> comparables r = [] \<and> transportLinks r = [] \<and> localAmenities r = []
         \<and> warnings (dataQuality r) \<noteq> []"
    by blast
  from c seed f have 3: "\<exists>r. fst (analyze sources_offline date0 address0 ''basic'' []) = Inr r
         \<and> has_details r (estimatePropertyDetails sources_offline address0)
         \<and> comparables r = [] \<and> transportLinks r = [] \<and> localAmenities r = []
         \<and> warnings (dataQuality r) \<noteq> []"
    by blast
  from 1 2 3 show ?thesis by blast
qed

text \<open>
  Claim C2. In basic mode the code does call the planning-history, comparables,
  market-data, transport-links and local-amenities providers: all seven provider
  methods run when \<open>dataPromises\<close> is built, before the mode is tested. The call log of
  a basic analysis holds all of them.
\<close>

theorem analyze_basic_calls_every_provider:
  "snd (analyze sources_ok date0 address0 ''basic'' []) =
     [GetCoordinates, GetPropertyDetails, GetPlanningHistory, GetComparables, GetMarketData,
      GetTransportLinks, GetLocalAmenities, CheckPlanningRestrictions]"
proof -
  have seed: "fst (getCoordinates sources_ok address0 []) = Inr coords0"
    by (simp add: getCoordinates_def sources_ok_def)
  show ?thesis
    by (simp add: analyze_basic [OF seed] all_calls_def)
qed

text \<open>
  Claim C4 as stated fails twice: a basic analysis of an address that cannot be
  geocoded returns no result, and the fixed warning of a successful one reads
  \<open>Basic analysis - limited data gathered\<close>, which is not the text of the specification.
\<close>

theorem analyze_basic_claim_refuted:
  "fst (analyze sources_down date0 address0 ''basic'' []) =
      Inl (Error (''Property analysis failed: Could not geocode address: '' @ address0))
   \<and> warnings (dataQuality (projr (fst (analyze sources_ok date0 address0 ''basic'' []))))
       = [''Basic analysis - limited data gathered'']
   \<and> [''Basic analysis - limited data gathered''] \<noteq> [basic_warning_spec]"
proof -
  have down: "isl (fst (getCoordinates sources_down address0 []))"
    by (simp add: getCoordinates_def sources_down_def sources_ok_def)
  have seed: "fst (getCoordinates sources_ok address0 []) = Inr coords0"
    by (simp add: getCoordinates_def sources_ok_def)
  show ?thesis
    unfolding analyze_basic [OF seed] analyze_seed_failed [OF down]
    by (simp add: result_of_def basic_quality_def basic_warning_spec_def)
qed

text \<open>
  Claim C4, amended. Whenever the seed resolution succeeds, a basic analysis returns a
  result with overall score 60, no planning history, no comparables, and exactly one
  warning, \<open>Basic analysis - limited data gathered\<close>.
\<close>

theorem analyze_basic_fixed_quality:
  assumes "fst (getCoordinates env a calls) = Inr c"
  shows "\<exists>r. fst (analyze env isoDate a ''basic'' calls) = Inr r
     \<and> overallScore (dataQuality r) = 60
     \<and> planningHistory r = []
     \<and> comparables r = []
     \<and> warnings (dataQuality r) = [''Basic analysis - limited data gathered'']"
  by (simp add: analyze_basic [OF assms] result_of_def basic_quality_def)

text \<open>
  The basic analysis with every source answering.
\<close>

theorem analyze_basic_fixed_quality_witness:
  "\<exists>r. fst (analyze sources_ok date0 address0 ''basic'' []) = Inr r
     \<and> overallScore (dataQuality r) = 60
     \<and> planningHistory r = []
     \<and> comparables r = []
     \<and> warnings (dataQuality r) = [''Basic analysis - limited data gathered'']"
proof -
  have seed: "fst (getCoordinates sources_ok address0 []) = Inr coords0"
    by (simp add: getCoordinates_def sources_ok_def)
  from analyze_basic_fixed_quality [OF seed] show ?thesis .
qed

text \<open>
  Claim C3 as stated fails: with only the request for transit stations failing, the
  comprehensive analysis succeeds, \<open>transportLinks\<close> is \<open>[]\<close>, and the list of warnings is
  empty although one provider failed.
\<close>

theorem analyze_failure_without_warning:
  "failures sources_no_transport address0 coords0 = 1
   \<and> transit_failed sources_no_transport coords0
   \<and> \<not> isl (fst (analyze sources_no_transport date0 address0 ''comprehensive'' []))
   \<and> transportLinks (projr (fst (analyze sources_no_transport date0 address0 ''comprehensive'' []))) = []
   \<and> warnings (dataQuality
        (projr (fst (analyze sources_no_transport date0 address0 ''comprehensive'' [])))) = []"
proof -
  have seed: "fst (getCoordinates sources_no_transport address0 []) = Inr coords0"
    by (simp add: getCoordinates_def sources_no_transport_def sources_ok_def)
  have ne: "''comprehensive'' \<noteq> ''basic''" by simp
  have f: "failures sources_no_transport address0 coords0 = 1"
    "transit_failed sources_no_transport coords0"
    by (simp_all add: failures_def listing_failed_def registry_failed_def transit_failed_def
        amenities_failed_def amenityTypes_def sources_no_transport_def sources_ok_def)
  have t: "contributed_transport sources_no_transport coords0 = []"
    by (simp add: contributed_transport_def getTransportLinks_def sources_no_transport_def
        sources_ok_def)
  have c: "contributed_comparables sources_no_transport coords0
             (extractPostcode sources_no_transport address0) =
      [comparable_rated Medium 500000, comparable_rated Medium 480000,
       comparable_rated Medium 520000]"
    by (simp add: contributed_comparables_def getComparables_def getLandRegistryComparables_def
        sources_no_transport_def sources_ok_def)
  have m: "sampleSize (contributed_market sources_no_transport
             (extractPostcode sources_no_transport address0)) = 25"
    by (simp add: contributed_market_def getMarketData_def generateMarketDataByArea_def Let_def
        sources_no_transport_def sources_ok_def)
  have p: "contributed_planning sources_no_transport address0 coords0 = mockPlanningHistory"
    by (simp add: contributed_planning_def getPlanningHistory_def sources_no_transport_def
        sources_ok_def)
  show ?thesis
    unfolding analyze_comprehensive [OF seed ne]
    by (simp add: f t c m p result_of_def assessDataQuality_def Let_def mockPlanningHistory_def)
qed

text \<open>
  Claim C3, amended. In a comprehensive analysis whose seed resolution succeeds, the
  call returns a result, whatever the providers do: each field is what its provider
  method contributes, and the quality report, with its warnings, is \<open>assessDataQuality\<close>
  of the final comparables, market data and planning history; the warnings depend on
  those three components only, and no warning is added for a failed provider. What a
  provider contributes: a cached value when there is one; else, for a provider that
  makes a request, the fetched value when the request succeeds (for the listing only
  when a property card with a price other than 0 was found) and a fallback when it
  fails or times out: the estimate for the postcode area for the listing (also used
  when no card or a price of 0 was found), \<open>[]\<close> for the registry's comparables, for the
  transit stations, and for the amenities of every type whose request fails. The
  planning, market-data and restriction methods make no request and contribute their
  fixed answers.
\<close>

theorem analyze_comprehensive_reduces:
  assumes "analysisType \<noteq> ''basic''" and "fst (getCoordinates env a calls) = Inr c"
  shows
   "(\<exists>r. fst (analyze env isoDate a analysisType calls) = Inr r
        \<and> has_details r (contributed_details env a c)
        \<and> planningHistory r = contributed_planning env a c
        \<and> comparables r = contributed_comparables env c (extractPostcode env a)
        \<and> marketTrends r = contributed_market env (extractPostcode env a)
        \<and> transportLinks r = contributed_transport env c
        \<and> localAmenities r = contributed_amenities env c
        \<and> has_restrictions r (contributed_restrictions env c)
        \<and> dataQuality r = assessDataQuality (comparables r) (marketTrends r) (planningHistory r))
    \<and> (\<forall>d. cached_details env a = Some d \<longrightarrow> contributed_details env a c = d)
    \<and> (\<forall>firstResult. cached_details env a = None
          \<and> http_rightmove env a = Success (Some firstResult) \<and> card_price firstResult \<noteq> 0 \<longrightarrow>
          contributed_details env a c =
            \<lparr>d_currentValue = card_price firstResult,
             d_propertyType =
               (if card_type firstResult = [] then ''Unknown'' else card_type firstResult),
             d_bedrooms = card_bedrooms firstResult, d_bathrooms = 1, d_tenure = ''Freehold'',
             d_useClass = ''C3'', d_localAuthority = getLocalAuthority env a\<rparr>)
    \<and> (listing_failed env a \<longrightarrow> contributed_details env a c = estimatePropertyDetails env a)
    \<and> (cached_details env a = None
          \<and> (http_rightmove env a = Success None
             \<or> (\<exists>firstResult. http_rightmove env a = Success (Some firstResult)
                   \<and> card_price firstResult = 0)) \<longrightarrow>
          contributed_details env a c = estimatePropertyDetails env a)
    \<and> (\<forall>h. cached_planning env a = Some h \<longrightarrow> contributed_planning env a c = h)
    \<and> (cached_planning env a = None \<longrightarrow> contributed_planning env a c = mockPlanningHistory)
    \<and> (\<forall>cs. cached_comparables env (extractPostcode env a) = Some cs \<longrightarrow>
          contributed_comparables env c (extractPostcode env a) = cs)
    \<and> (\<forall>rows. cached_comparables env (extractPostcode env a) = None
          \<and> http_landRegistry env (extractPostcode env a) = Success rows \<longrightarrow>
          contributed_comparables env c (extractPostcode env a) = map (enrich env c) rows)
    \<and> (registry_failed env (extractPostcode env a) \<longrightarrow>
          contributed_comparables env c (extractPostcode env a) = [])
    \<and> (\<forall>m. cached_market env (extractPostcode env a) = Some m \<longrightarrow>
          contributed_market env (extractPostcode env a) = m)
    \<and> (cached_market env (extractPostcode env a) = None \<longrightarrow>
          contributed_market env (extractPostcode env a)
            = generateMarketDataByArea env (take 2 (extractPostcode env a)))
    \<and> (\<forall>ls. cached_transport env c = Some ls \<longrightarrow> contributed_transport env c = ls)
    \<and> (\<forall>ls. cached_transport env c = None \<and> google_places_key env
          \<and> http_transit env c = Success ls \<longrightarrow> contributed_transport env c = ls)
    \<and> (transit_failed env c \<longrightarrow> contributed_transport env c = [])
    \<and> (\<forall>xs. cached_amenities env c = Some xs \<longrightarrow> contributed_amenities env c = xs)
    \<and> (cached_amenities env c = None \<and> google_places_key env \<longrightarrow>
          contributed_amenities env c =
            concat (map (\<lambda>amenityType. case http_amenities env c amenityType of
                                         Failure reason \<Rightarrow> []
                                       | Success amenities \<Rightarrow> amenities) amenityTypes))
    \<and> (amenities_failed env c \<longrightarrow> contributed_amenities env c = [])
    \<and> (\<forall>x. cached_restrictions env c = Some x \<longrightarrow> contributed_restrictions env c = x)
    \<and> (cached_restrictions env c = None \<longrightarrow> contributed_restrictions env c = defaultRestrictions)"
proof -
  have u: "cache_usable env" using assms(2) by (rule getCoordinates_usable)
  have reduce: "\<exists>r. fst (analyze env isoDate a analysisType calls) = Inr r
        \<and> has_details r (contributed_details env a c)
        \<and> planningHistory r = contributed_planning env a c
        \<and> comparables r = contributed_comparables env c (extractPostcode env a)
        \<and> marketTrends r = contributed_market env (extractPostcode env a)
        \<and> transportLinks r = contributed_transport env c
        \<and> localAmenities r = contributed_amenities env c
        \<and> has_restrictions r (contributed_restrictions env c)
        \<and> dataQuality r = assessDataQuality (comparables r) (marketTrends r) (planningHistory r)"
    by (simp add: analyze_comprehensive [OF assms(2,1)] result_of_def has_details_def
        has_restrictions_def)
  have details: "\<forall>d. cached_details env a = Some d \<longrightarrow> contributed_details env a c = d"
    "\<forall>firstResult. cached_details env a = None
          \<and> http_rightmove env a = Success (Some firstResult) \<and> card_price firstResult \<noteq> 0 \<longrightarrow>
          contributed_details env a c =
            \<lparr>d_currentValue = card_price firstResult,
             d_propertyType =
               (if card_type firstResult = [] then ''Unknown'' else card_type firstResult),
             d_bedrooms = card_bedrooms firstResult, d_bathrooms = 1, d_tenure = ''Freehold'',
             d_useClass = ''C3'', d_localAuthority = getLocalAuthority env a\<rparr>"
    "listing_failed env a \<longrightarrow> contributed_details env a c = estimatePropertyDetails env a"
    "cached_details env a = None
          \<and> (http_rightmove env a = Success None
             \<or> (\<exists>firstResult. http_rightmove env a = Success (Some firstResult)
                   \<and> card_price firstResult = 0)) \<longrightarrow>
          contributed_details env a c = estimatePropertyDetails env a"
    using u contributed_details_failed [OF u, of a c]
    by (auto simp: contributed_details_def getPropertyDetails_def scrapeRightmoveDetails_def)
  have planning: "\<forall>h. cached_planning env a = Some h \<longrightarrow> contributed_planning env a c = h"
    "cached_planning env a = None \<longrightarrow> contributed_planning env a c = mockPlanningHistory"
    using u by (simp_all add: contributed_planning_def getPlanningHistory_def)
  have comps: "\<forall>cs. cached_comparables env (extractPostcode env a) = Some cs \<longrightarrow>
          contributed_comparables env c (extractPostcode env a) = cs"
    "\<forall>rows. cached_comparables env (extractPostcode env a) = None
          \<and> http_landRegistry env (extractPostcode env a) = Success rows \<longrightarrow>
          contributed_comparables env c (extractPostcode env a) = map (enrich env c) rows"
    "registry_failed env (extractPostcode env a) \<longrightarrow>
          contributed_comparables env c (extractPostcode env a) = []"
    using u contributed_comparables_failed [OF u, of "extractPostcode env a" c]
    by (simp_all add: contributed_comparables_def getComparables_def
        getLandRegistryComparables_def)
  have market: "\<forall>m. cached_market env (extractPostcode env a) = Some m \<longrightarrow>
          contributed_market env (extractPostcode env a) = m"
    "cached_market env (extractPostcode env a) = None \<longrightarrow>
          contributed_market env (extractPostcode env a)
            = generateMarketDataByArea env (take 2 (extractPostcode env a))"
    using u by (simp_all add: contributed_market_def getMarketData_def)
  have transport: "\<forall>ls. cached_transport env c = Some ls \<longrightarrow> contributed_transport env c = ls"
    "\<forall>ls. cached_transport env c = None \<and> google_places_key env
          \<and> http_transit env c = Success ls \<longrightarrow> contributed_transport env c = ls"
    "transit_failed env c \<longrightarrow> contributed_transport env c = []"
    using u contributed_transport_failed [OF u, of c]
    by (simp_all add: contributed_transport_def getTransportLinks_def)
  have amenities: "\<forall>xs. cached_amenities env c = Some xs \<longrightarrow> contributed_amenities env c = xs"
    "cached_amenities env c = None \<and> google_places_key env \<longrightarrow>
          contributed_amenities env c =
            concat (map (\<lambda>amenityType. case http_amenities env c amenityType of
                                         Failure reason \<Rightarrow> []
                                       | Success amenities \<Rightarrow> amenities) amenityTypes)"
    "amenities_failed env c \<longrightarrow> contributed_amenities env c = []"
    using u contributed_amenities_failed [OF u, of c]
    by (simp_all add: contributed_amenities_def getLocalAmenities_def)
  have restrictions:
    "\<forall>x. cached_restrictions env c = Some x \<longrightarrow> contributed_restrictions env c = x"
    "cached_restrictions env c = None \<longrightarrow> contributed_restrictions env c = defaultRestrictions"
    using u by (simp_all add: contributed_restrictions_def checkPlanningRestrictions_def)
  show ?thesis
    by (intro conjI reduce details planning comps market transport amenities restrictions)
qed

text \<open>
  The comprehensive analysis with only the transit request failing, with every request
  answered, with every request but the geocoding failing, with everything cached, and
  with a listing page without a property card.
\<close>

theorem analyze_comprehensive_reduces_witness:
  "(\<exists>r. fst (analyze sources_no_transport date0 address0 ''comprehensive'' []) = Inr r
       \<and> currentValue r = 450000 \<and> propertyType r = ''Unknown''
       \<and> planningHistory r = mockPlanningHistory
       \<and> length (comparables r) = 3
       \<and> sampleSize (marketTrends r) = 25
       \<and> transportLinks r = []
       \<and> localAmenities r = []
       \<and> dataQuality r = assessDataQuality (comparables r) (marketTrends r) (planningHistory r))
   \<and> contributed_transport sources_ok coords0 = [link0]
   \<and> contributed_details sources_offline address0 coords0
       = estimatePropertyDetails sources_offline address0
   \<and> contributed_comparables sources_offline coords0 ''W1A1AA'' = []
   \<and> contributed_amenities sources_offline coords0 = []
   \<and> d_currentValue (contributed_details sources_cached address0 coords0) = 450000
   \<and> contributed_planning sources_cached address0 coords0 = [planning_application ''P/2021/0042'']
   \<and> contributed_comparables sources_cached coords0 ''W1A1AA'' = [comparable_rated High 500000]
   \<and> contributed_market sources_cached ''W1A1AA'' = market_sample 5
   \<and> contributed_transport sources_cached coords0 = [link0]
   \<and> contributed_amenities sources_cached coords0 = []
   \<and> r_conservationArea (contributed_restrictions sources_cached coords0)
   \<and> contributed_details sources_no_listing address0 coords0
       = estimatePropertyDetails sources_no_listing address0"
proof -
  have ne: "''comprehensive'' \<noteq> ''basic''" by simp
  have seed: "fst (getCoordinates sources_no_transport address0 []) = Inr coords0"
    "fst (getCoordinates sources_ok address0 []) = Inr coords0"
    "fst (getCoordinates sources_offline address0 []) = Inr coords0"
    "fst (getCoordinates sources_cached address0 []) = Inr coords0"
    "fst (getCoordinates sources_no_listing address0 []) = Inr coords0"
    by (simp_all add: getCoordinates_def sources_no_transport_def sources_offline_def
        sources_cached_def sources_no_listing_def sources_ok_def)
  note nt = analyze_comprehensive_reduces [OF ne seed(1), of date0]
  note ok = analyze_comprehensive_reduces [OF ne seed(2), of date0]
  note off = analyze_comprehensive_reduces [OF ne seed(3), of date0]
  note hit = analyze_comprehensive_reduces [OF ne seed(4), of date0]
  note nl = analyze_comprehensive_reduces [OF ne seed(5), of date0]
  have pc: "extractPostcode sources_no_transport address0 = ''W1A1AA''"
    "extractPostcode sources_ok address0 = ''W1A1AA''"
    "extractPostcode sources_offline address0 = ''W1A1AA''"
    "extractPostcode sources_cached address0 = ''W1A1AA''"
    by (simp_all add: sources_no_transport_def sources_offline_def sources_cached_def
        sources_ok_def)
  have nt_h: "cached_details sources_no_transport address0 = None"
    "http_rightmove sources_no_transport address0 = Success (Some card0)"
    "card_price card0 \<noteq> 0" "card_type card0 = []"
    "cached_planning sources_no_transport address0 = None"
    "cached_comparables sources_no_transport ''W1A1AA'' = None"
    "http_landRegistry sources_no_transport ''W1A1AA'' = Success
       [comparable_rated Medium 500000, comparable_rated Medium 480000,
        comparable_rated Medium 520000]"
    "cached_market sources_no_transport ''W1A1AA'' = None"
    "transit_failed sources_no_transport coords0"
    "cached_amenities sources_no_transport coords0 = None"
    "google_places_key sources_no_transport"
    "\<And>t. http_amenities sources_no_transport coords0 t = Success []"
    by (simp_all add: transit_failed_def card0_def sources_no_transport_def sources_ok_def)
  have market25: "sampleSize (generateMarketDataByArea sources_no_transport (take 2 ''W1A1AA'')) = 25"
    by (simp add: generateMarketDataByArea_def Let_def)
  from nt [THEN conjunct1] obtain r where r: "fst (analyze sources_no_transport date0 address0 ''comprehensive'' []) = Inr r"
    "has_details r (contributed_details sources_no_transport address0 coords0)"
    "planningHistory r = contributed_planning sources_no_transport address0 coords0"
    "comparables r = contributed_comparables sources_no_transport coords0 ''W1A1AA''"
    "marketTrends r = contributed_market sources_no_transport ''W1A1AA''"
    "transportLinks r = contributed_transport sources_no_transport coords0"
    "localAmenities r = contributed_amenities sources_no_transport coords0"
    "dataQuality r = assessDataQuality (comparables r) (marketTrends r) (planningHistory r)"
    unfolding pc by blast
  have nt_d: "contributed_details sources_no_transport address0 coords0 =
            \<lparr>d_currentValue = card_price card0,
             d_propertyType = (if card_type card0 = [] then ''Unknown'' else card_type card0),
             d_bedrooms = card_bedrooms card0, d_bathrooms = 1, d_tenure = ''Freehold'',
             d_useClass = ''C3'', d_localAuthority = getLocalAuthority sources_no_transport address0\<rparr>"
    using nt [THEN conjunct2, THEN conjunct2, THEN conjunct1] nt_h(1-3) by blast
  have nt_p: "contributed_planning sources_no_transport address0 coords0 = mockPlanningHistory"
    using nt [THEN conjunct2, THEN conjunct2, THEN conjunct2, THEN conjunct2, THEN conjunct2, THEN conjunct2, THEN conjunct1] nt_h(5) by blast
  have nt_c: "contributed_comparables sources_no_transport coords0 ''W1A1AA'' =
      map (enrich sources_no_transport coords0)
       [comparable_rated Medium 500000, comparable_rated Medium 480000,
        comparable_rated Medium 520000]"
    using nt [THEN conjunct2, THEN conjunct2, THEN conjunct2, THEN conjunct2, THEN conjunct2, THEN conjunct2, THEN conjunct2, THEN conjunct2, THEN conjunct1] nt_h(6,7) unfolding pc by blast
  have nt_m: "contributed_market sources_no_transport ''W1A1AA''
      = generateMarketDataByArea sources_no_transport (take 2 ''W1A1AA'')"
    using nt [THEN conjunct2, THEN conjunct2, THEN conjunct2, THEN conjunct2, THEN conjunct2, THEN conjunct2, THEN conjunct2, THEN conjunct2, THEN conjunct2, THEN conjunct2, THEN conjunct2, THEN conjunct1] nt_h(8) unfolding pc by blast
  have nt_t: "contributed_transport sources_no_transport coords0 = []"
    using nt [THEN conjunct2, THEN conjunct2, THEN conjunct2, THEN conjunct2, THEN conjunct2, THEN conjunct2, THEN conjunct2, THEN conjunct2, THEN conjunct2, THEN conjunct2, THEN conjunct2, THEN conjunct2, THEN conjunct2, THEN conjunct2, THEN conjunct1] nt_h(9) by blast
  have nt_a: "contributed_amenities sources_no_transport coords0 =
      concat (map (\<lambda>amenityType. case http_amenities sources_no_transport coords0 amenityType of
                                         Failure reason \<Rightarrow> []
                                       | Success amenities \<Rightarrow> amenities) amenityTypes)"
    using nt [THEN conjunct2, THEN conjunct2, THEN conjunct2, THEN conjunct2, THEN conjunct2, THEN conjunct2, THEN conjunct2, THEN conjunct2, THEN conjunct2, THEN conjunct2, THEN conjunct2, THEN conjunct2, THEN conjunct2, THEN conjunct2, THEN conjunct2, THEN conjunct2, THEN conjunct1] nt_h(10,11) by blast
  have first: "\<exists>r. fst (analyze sources_no_transport date0 address0 ''comprehensive'' []) = Inr r
       \<and> currentValue r = 450000 \<and> propertyType r = ''Unknown''
       \<and> planningHistory r = mockPlanningHistory
       \<and> length (comparables r) = 3
       \<and> sampleSize (marketTrends r) = 25
       \<and> transportLinks r = []
       \<and> localAmenities r = []
       \<and> dataQuality r = assessDataQuality (comparables r) (marketTrends r) (planningHistory r)"
    using r nt_h(4,12) market25
    by (intro exI [of _ r])
       (simp add: has_details_def nt_d nt_p nt_c nt_m nt_t nt_a card0_def amenityTypes_def)
  have ok_h: "cached_transport sources_ok coords0 = None \<and> google_places_key sources_ok
      \<and> http_transit sources_ok coords0 = Success [link0]"
    by (simp add: sources_ok_def)
  have second: "contributed_transport sources_ok coords0 = [link0]"
    using ok [THEN conjunct2, THEN conjunct2, THEN conjunct2, THEN conjunct2, THEN conjunct2, THEN conjunct2, THEN conjunct2, THEN conjunct2, THEN conjunct2, THEN conjunct2, THEN conjunct2, THEN conjunct2, THEN conjunct2, THEN conjunct1] ok_h by blast
  have off_h: "listing_failed sources_offline address0"
    "registry_failed sources_offline ''W1A1AA''"
    "amenities_failed sources_offline coords0"
    by (simp_all add: listing_failed_def registry_failed_def amenities_failed_def amenityTypes_def
        sources_offline_def sources_ok_def)
  have third: "contributed_details sources_offline address0 coords0
       = estimatePropertyDetails sources_offline address0"
    "contributed_comparables sources_offline coords0 ''W1A1AA'' = []"
    "contributed_amenities sources_offline coords0 = []"
    using off [THEN conjunct2, THEN conjunct2, THEN conjunct2, THEN conjunct1]
      off [THEN conjunct2, THEN conjunct2, THEN conjunct2, THEN conjunct2, THEN conjunct2, THEN conjunct2, THEN conjunct2, THEN conjunct2, THEN conjunct2, THEN conjunct1]
      off [THEN conjunct2, THEN conjunct2, THEN conjunct2, THEN conjunct2, THEN conjunct2, THEN conjunct2, THEN conjunct2, THEN conjunct2, THEN conjunct2, THEN conjunct2, THEN conjunct2, THEN conjunct2, THEN conjunct2, THEN conjunct2, THEN conjunct2, THEN conjunct2, THEN conjunct2, THEN conjunct1] off_h
    unfolding pc by blast+
  have hit_h: "cached_details sources_cached address0 = Some
         \<lparr>d_currentValue = 450000, d_propertyType = ''Flat'', d_bedrooms = 2, d_bathrooms = 1,
          d_tenure = ''Leasehold'', d_useClass = ''C3'', d_localAuthority = ''Westminster''\<rparr>"
    "cached_planning sources_cached address0 = Some [planning_application ''P/2021/0042'']"
    "cached_comparables sources_cached ''W1A1AA'' = Some [comparable_rated High 500000]"
    "cached_market sources_cached ''W1A1AA'' = Some (market_sample 5)"
    "cached_transport sources_cached coords0 = Some [link0]"
    "cached_amenities sources_cached coords0 = Some []"
    "cached_restrictions sources_cached coords0 = Some
         \<lparr>r_conservationArea = True, r_listedBuilding = False, r_article4Direction = False\<rparr>"
    by (simp_all add: sources_cached_def)
  have fourth_d: "contributed_details sources_cached address0 coords0 =
         \<lparr>d_currentValue = 450000, d_propertyType = ''Flat'', d_bedrooms = 2, d_bathrooms = 1,
          d_tenure = ''Leasehold'', d_useClass = ''C3'', d_localAuthority = ''Westminster''\<rparr>"
    using hit [THEN conjunct2, THEN conjunct1] hit_h(1) by blast
  have fourth_r: "contributed_restrictions sources_cached coords0 =
         \<lparr>r_conservationArea = True, r_listedBuilding = False, r_article4Direction = False\<rparr>"
    using hit [THEN conjunct2, THEN conjunct2, THEN conjunct2, THEN conjunct2, THEN conjunct2, THEN conjunct2, THEN conjunct2, THEN conjunct2, THEN conjunct2, THEN conjunct2, THEN conjunct2, THEN conjunct2, THEN conjunct2, THEN conjunct2, THEN conjunct2, THEN conjunct2, THEN conjunct2, THEN conjunct2, THEN conjunct1] hit_h(7) by blast
  have fourth: "contributed_planning sources_cached address0 coords0 = [planning_application ''P/2021/0042'']"
    "contributed_comparables sources_cached coords0 ''W1A1AA'' = [comparable_rated High 500000]"
    "contributed_market sources_cached ''W1A1AA'' = market_sample 5"
    "contributed_transport sources_cached coords0 = [link0]"
    "contributed_amenities sources_cached coords0 = []"
    using hit [THEN conjunct2, THEN conjunct2, THEN conjunct2, THEN conjunct2, THEN conjunct2, THEN conjunct1]
      hit [THEN conjunct2, THEN conjunct2, THEN conjunct2, THEN conjunct2, THEN conjunct2, THEN conjunct2, THEN conjunct2, THEN conjunct1]
      hit [THEN conjunct2, THEN conjunct2, THEN conjunct2, THEN conjunct2, THEN conjunct2, THEN conjunct2, THEN conjunct2, THEN conjunct2, THEN conjunct2, THEN conjunct2, THEN conjunct1]
      hit [THEN conjunct2, THEN conjunct2, THEN conjunct2, THEN conjunct2, THEN conjunct2, THEN conjunct2, THEN conjunct2, THEN conjunct2, THEN conjunct2, THEN conjunct2, THEN conjunct2, THEN conjunct2, THEN conjunct1]
      hit [THEN conjunct2, THEN conjunct2, THEN conjunct2, THEN conjunct2, THEN conjunct2, THEN conjunct2, THEN conjunct2, THEN conjunct2, THEN conjunct2, THEN conjunct2, THEN conjunct2, THEN conjunct2, THEN conjunct2, THEN conjunct2, THEN conjunct2, THEN conjunct1] hit_h(2-6)
    unfolding pc by blast+
  have nl_h: "cached_details sources_no_listing address0 = None
      \<and> http_rightmove sources_no_listing address0 = Success None"
    by (simp add: sources_no_listing_def sources_ok_def)
  have fifth: "contributed_details sources_no_listing address0 coords0
       = estimatePropertyDetails sources_no_listing address0"
    using nl [THEN conjunct2, THEN conjunct2, THEN conjunct2, THEN conjunct2, THEN conjunct1] nl_h by blast
  show ?thesis
    using first second third fourth fifth by (simp add: fourth_d fourth_r)
qed

end
